theory Spec2Isabelle
  imports Main "HOL-Library.Word"
begin

unbundle bit_operations_syntax

section \<open>On-disk codec\<close>

text \<open>
  A node of the extent tree is a region of bytes: the 60 bytes of the inode's
  \<open>i_block\<close> for the root, one filesystem block for every other node.  All
  multi-byte fields are little-endian; \<open>get_le16\<close> and \<open>get_le32\<close> are
  \<open>ext2fs_le16_to_cpu\<close> and \<open>ext2fs_le32_to_cpu\<close> applied to the field at a byte
  offset, \<open>put_le16\<close> and \<open>put_le32\<close> the stores through
  \<open>ext2fs_cpu_to_le16\<close> and \<open>ext2fs_cpu_to_le32\<close>.
\<close>

type_synonym byte = "8 word"
type_synonym bytes = "byte list"

definition get_le16 :: "bytes \<Rightarrow> nat \<Rightarrow> 16 word" where
  "get_le16 b off = ucast (b ! off) OR push_bit 8 (ucast (b ! (off + 1)))"

definition get_le32 :: "bytes \<Rightarrow> nat \<Rightarrow> 32 word" where
  "get_le32 b off = ucast (get_le16 b off) OR push_bit 16 (ucast (get_le16 b (off + 2)))"

definition put_le16 :: "bytes \<Rightarrow> nat \<Rightarrow> 16 word \<Rightarrow> bytes" where
  "put_le16 b off v = b[off := ucast v, off + 1 := ucast (drop_bit 8 v)]"

definition put_le32 :: "bytes \<Rightarrow> nat \<Rightarrow> 32 word \<Rightarrow> bytes" where
  "put_le32 b off v =
     put_le16 (put_le16 b off (ucast v)) (off + 2) (ucast (drop_bit 16 v))"

text \<open>
  Modelled from the spec: the structures \<open>ext3_extent_header\<close>, \<open>ext3_extent\<close> and
  \<open>ext3_extent_idx\<close> and the macros \<open>EXT3_EXT_MAGIC\<close>, \<open>EXT_FIRST_INDEX\<close>,
  \<open>EXT_LAST_EXTENT\<close>, \<open>EXT_LAST_INDEX\<close> and \<open>EXT_INIT_MAX_LEN\<close> are declared in a
  header that is not among the sources.  The layouts are those of section 3 of the
  specification: a 12-byte header (magic, entries, max, depth, generation), a 12-byte
  leaf record (\<open>ee_block\<close>, \<open>ee_len\<close>, \<open>ee_start_hi\<close>, \<open>ee_start\<close>) and a 12-byte
  index record (\<open>ei_block\<close>, \<open>ei_leaf\<close>, \<open>ei_leaf_hi\<close>, \<open>ei_unused\<close>).
\<close>

definition EXT3_EXT_MAGIC :: "16 word" where
  "EXT3_EXT_MAGIC = 0xf30a"

definition EXT_INIT_MAX_LEN :: "32 word" where
  "EXT_INIT_MAX_LEN = 32768"

definition sizeof_ext3_extent_header :: int where
  "sizeof_ext3_extent_header = 12"

definition sizeof_ext3_extent :: int where
  "sizeof_ext3_extent = 12"

definition sizeof_ext3_extent_idx :: int where
  "sizeof_ext3_extent_idx = 12"

definition eh_magic :: "bytes \<Rightarrow> 16 word" where
  "eh_magic b = get_le16 b 0"

definition eh_entries :: "bytes \<Rightarrow> 16 word" where
  "eh_entries b = get_le16 b 2"

definition eh_max :: "bytes \<Rightarrow> 16 word" where
  "eh_max b = get_le16 b 4"

definition eh_depth :: "bytes \<Rightarrow> 16 word" where
  "eh_depth b = get_le16 b 6"

definition set_eh_entries :: "bytes \<Rightarrow> 16 word \<Rightarrow> bytes" where
  "set_eh_entries b v = put_le16 b 2 v"

text \<open>
  A record pointer (\<open>ix\<close>, \<open>ex\<close>, \<open>path->curr\<close>) is modelled by the index of the
  record it points at: \<open>EXT_FIRST_INDEX(eh)\<close> is index 0, \<open>ix++\<close> adds one and
  \<open>ix--\<close> subtracts one.  \<open>rec_ptr i\<close> is the distance in bytes from the start of
  the node buffer to record \<open>i\<close>.  Index \<open>-1\<close> is the header itself (distance 0); a
  smaller index points in front of the buffer, at a negative distance.  The code
  may hold such a pointer, but once it reads or writes through it the execution is
  outside the buffer: each definition below that dereferences a record pointer tests
  \<open>rec_ptr i < 0\<close> first and then stops with \<open>OUT_OF_BUFFER\<close>.  \<open>rec_off i\<close> is the
  same distance as an index into the byte list, used for the records that are not in
  front of the buffer.
\<close>

definition rec_ptr :: "int \<Rightarrow> int" where
  "rec_ptr i = 12 + 12 * i"

definition rec_off :: "int \<Rightarrow> nat" where
  "rec_off i = nat (12 + 12 * i)"

definition ee_block :: "bytes \<Rightarrow> int \<Rightarrow> 32 word" where
  "ee_block b i = get_le32 b (rec_off i)"

definition ee_len :: "bytes \<Rightarrow> int \<Rightarrow> 16 word" where
  "ee_len b i = get_le16 b (rec_off i + 4)"

definition ee_start_hi :: "bytes \<Rightarrow> int \<Rightarrow> 16 word" where
  "ee_start_hi b i = get_le16 b (rec_off i + 6)"

definition ee_start :: "bytes \<Rightarrow> int \<Rightarrow> 32 word" where
  "ee_start b i = get_le32 b (rec_off i + 8)"

definition ei_block :: "bytes \<Rightarrow> int \<Rightarrow> 32 word" where
  "ei_block b i = get_le32 b (rec_off i)"

definition ei_leaf :: "bytes \<Rightarrow> int \<Rightarrow> 32 word" where
  "ei_leaf b i = get_le32 b (rec_off i + 4)"

definition ei_leaf_hi :: "bytes \<Rightarrow> int \<Rightarrow> 16 word" where
  "ei_leaf_hi b i = get_le16 b (rec_off i + 8)"

definition ei_unused :: "bytes \<Rightarrow> int \<Rightarrow> 16 word" where
  "ei_unused b i = get_le16 b (rec_off i + 10)"

text \<open>
  The block number \<open>ext2fs_extent_get\<close> reads a child node from: the sum of
  \<open>ei_leaf\<close> and \<open>ei_leaf_hi << 32\<close>, stored in a local of the 32-bit type
  \<open>blk_t\<close>.
\<close>

definition child_blk :: "bytes \<Rightarrow> int \<Rightarrow> 32 word" where
  "child_blk b ix =
     ucast ((ucast (ei_leaf b ix) :: 64 word) + push_bit 32 (ucast (ei_leaf_hi b ix)))"

definition EXT_LAST_INDEX :: "bytes \<Rightarrow> int" where
  "EXT_LAST_INDEX b = uint (eh_entries b) - 1"

definition EXT_LAST_EXTENT :: "bytes \<Rightarrow> int" where
  "EXT_LAST_EXTENT b = uint (eh_entries b) - 1"

text \<open>
  \<open>in_node b off n\<close>: the \<open>n\<close> bytes at distance \<open>off\<close> from the start of the node
  buffer \<open>b\<close> all lie in the buffer.
\<close>

definition in_node :: "bytes \<Rightarrow> int \<Rightarrow> int \<Rightarrow> bool" where
  "in_node b off n = (0 \<le> off \<and> 0 \<le> n \<and> off + n \<le> int (length b))"

text \<open>
  \<open>memmove\<close> of \<open>n\<close> bytes inside the node buffer, \<open>dst\<close> and \<open>src\<close> being distances
  from its start and \<open>n\<close> the value of the \<open>size_t\<close> argument.  When the source or
  the destination range leaves the buffer, the C call reads or overwrites the memory
  next to it (for the root node, the fields of the inode around \<open>i_block\<close>); the
  result is then \<open>None\<close>.
\<close>

definition memmove :: "bytes \<Rightarrow> int \<Rightarrow> int \<Rightarrow> int \<Rightarrow> bytes option" where
  "memmove b dst src n =
     (if in_node b dst n \<and> in_node b src n
      then Some (map (\<lambda>k. if nat dst \<le> k \<and> k < nat dst + nat n
                           then b ! (nat src + (k - nat dst)) else b ! k)
                   [0..<length b])
      else None)"

section \<open>Error codes\<close>

text \<open>
  \<open>errcode_t\<close> is \<open>error option\<close>, \<open>None\<close> being 0.  \<open>COLLABORATOR n\<close> is a code
  returned by block I/O, inode I/O or the allocator.  \<open>SEGFAULT\<close> and
  \<open>OUT_OF_BUFFER\<close> are not error codes.  \<open>SEGFAULT\<close> marks the executions in which
  the C code dereferences a null pointer.  \<open>OUT_OF_BUFFER\<close> marks the executions in
  which it reads a record in front of the node buffer, or writes or moves bytes
  outside the node buffer: the C code goes on with the memory next to the buffer
  read or overwritten; the model stops there, and the handle and the filesystem it
  gives back with \<open>OUT_OF_BUFFER\<close> stand for no state of the C program.
\<close>

datatype error =
    EXT2_ET_MAGIC_EXT2FS_FILSYS
  | EXT2_ET_MAGIC_EXTENT_HANDLE
  | EXT2_ET_BAD_INODE_NUM
  | EXT2_ET_INODE_NOT_EXTENT
  | EXT2_ET_EXTENT_HEADER_BAD
  | EXT2_ET_NO_CURRENT_NODE
  | EXT2_ET_EXTENT_NO_NEXT
  | EXT2_ET_EXTENT_NO_PREV
  | EXT2_ET_EXTENT_NO_UP
  | EXT2_ET_EXTENT_NO_DOWN
  | EXT2_ET_EXTENT_NOT_FOUND
  | EXT2_ET_CANT_INSERT_EXTENT
  | EXT2_ET_RO_FILSYS
  | EXT2_ET_OP_NOT_SUPPORTED
  | COLLABORATOR nat
  | SEGFAULT
  | OUT_OF_BUFFER

type_synonym errcode_t = "error option"

section \<open>Header verification\<close>

text \<open>
  \<open>size - sizeof(*eh)\<close> is computed in \<open>size_t\<close> (64 bits), the quotient is stored
  in the \<open>int\<close> variable \<open>eh_max\<close>.
\<close>

definition to_size_t :: "int \<Rightarrow> int" where
  "to_size_t x = x mod 2 ^ 64"

definition to_int :: "int \<Rightarrow> int" where
  "to_int x = (x + 2 ^ 31) mod 2 ^ 32 - 2 ^ 31"

definition ext2fs_extent_header_verify :: "bytes \<Rightarrow> int \<Rightarrow> errcode_t" where
  "ext2fs_extent_header_verify ptr sz =
     (if eh_magic ptr \<noteq> EXT3_EXT_MAGIC then Some EXT2_ET_EXTENT_HEADER_BAD
      else if uint (eh_entries ptr) > uint (eh_max ptr) then Some EXT2_ET_EXTENT_HEADER_BAD
      else
        let entry_size = (if eh_depth ptr = 0 then sizeof_ext3_extent
                          else sizeof_ext3_extent_idx);
            eh_max' = to_int (to_size_t (sz - sizeof_ext3_extent_header) div entry_size)
        in if uint (eh_max ptr) > eh_max' \<or> uint (eh_max ptr) < eh_max' - 2
           then Some EXT2_ET_EXTENT_HEADER_BAD
           else None)"

section \<open>Data model\<close>

text \<open>
  Modelled from the spec: \<open>struct ext2fs_extent\<close>, the extent flags, the operation
  codes, \<open>struct ext2_extent_info\<close>, \<open>struct ext2_inode\<close> and the filesystem handle
  are declared in headers that are not among the sources.  The extent returned to
  callers is \<open>{e_lblk: u64, e_pblk: u64, e_len, e_flags: bitset of LEAF, UNINIT,
  SECOND_VISIT}\<close> (section 6); \<open>e_len\<close> and \<open>e_flags\<close> are 32-bit.
\<close>

record ext2fs_extent =
  e_pblk :: "64 word"
  e_lblk :: "64 word"
  e_len :: "32 word"
  e_flags :: "32 word"

definition EXT2_EXTENT_FLAGS_LEAF :: "32 word" where
  "EXT2_EXTENT_FLAGS_LEAF = 1"

definition EXT2_EXTENT_FLAGS_UNINIT :: "32 word" where
  "EXT2_EXTENT_FLAGS_UNINIT = 2"

definition EXT2_EXTENT_FLAGS_SECOND_VISIT :: "32 word" where
  "EXT2_EXTENT_FLAGS_SECOND_VISIT = 4"

text \<open>
  The operation code \<open>flags & EXT2_EXTENT_MOVE_MASK\<close>.  \<open>EXT2_EXTENT_OTHER n\<close> is any
  code outside the operation set (the \<open>default\<close> branch of the switch).
\<close>

datatype ext_op =
    EXT2_EXTENT_CURRENT
  | EXT2_EXTENT_ROOT
  | EXT2_EXTENT_LAST_LEAF
  | EXT2_EXTENT_FIRST_SIB
  | EXT2_EXTENT_LAST_SIB
  | EXT2_EXTENT_NEXT_SIB
  | EXT2_EXTENT_PREV_SIB
  | EXT2_EXTENT_NEXT_LEAF
  | EXT2_EXTENT_PREV_LEAF
  | EXT2_EXTENT_NEXT
  | EXT2_EXTENT_PREV
  | EXT2_EXTENT_UP
  | EXT2_EXTENT_DOWN
  | EXT2_EXTENT_DOWN_AND_LAST
  | EXT2_EXTENT_OTHER nat

text \<open>
  \<open>struct extent_path\<close>.  \<open>buf\<close> is \<open>None\<close> for a null pointer and holds the bytes of
  the node otherwise; \<open>curr\<close> is \<open>None\<close> for a null pointer and the index of the
  record otherwise.  The \<open>int\<close> fields are integers; they are loaded from 16-bit
  header fields and change by one at a time, so they stay far from the limits of a
  C \<open>int\<close>.
\<close>

record extent_path =
  buf :: "bytes option"
  entries :: int
  max_entries :: int
  left :: int
  visit_num :: int
  flags :: int
  end_blk :: "64 word"
  curr :: "int option"

record ext2_inode =
  i_flags :: "32 word"
  i_size :: "32 word"
  i_size_high :: "32 word"
  i_block :: bytes

definition EXT4_EXTENTS_FL :: "32 word" where
  "EXT4_EXTENTS_FL = 0x80000"

text \<open>
  \<open>struct ext2_extent_handle\<close>.  The pointer \<open>handle->fs\<close> is not a field: the
  filesystem is passed next to the handle.  \<open>path[0].buf\<close> points into the inode
  copy (\<open>handle->inode->i_block\<close>); the model keeps these 60 bytes once, in
  \<open>buf\<close> of frame 0, and \<open>update_path\<close> writes the inode with them.
\<close>

record ext2_extent_handle =
  magic :: errcode_t
  ino :: nat
  inode :: "ext2_inode option"
  htype :: int
  level :: int
  max_depth :: int
  path :: "extent_path list option"

datatype memobj = HANDLE_MEM | INODE_MEM | PATH_MEM | BUF_MEM nat

text \<open>
  The filesystem handle with the collaborators reached through it.  \<open>disk\<close> gives the
  contents of every block of the device; \<open>read_blk_err\<close>, \<open>write_blk_err\<close>,
  \<open>read_inode_err\<close>, \<open>write_inode_err\<close> and \<open>get_mem_err\<close> say which calls of
  \<open>io_channel_read_blk\<close>, \<open>io_channel_write_blk\<close>, \<open>ext2fs_read_inode_full\<close>,
  \<open>ext2fs_write_inode_full\<close> and \<open>ext2fs_get_mem\<close> fail, and with which code.
  \<open>fs_rw\<close> is \<open>fs->flags & EXT2_FLAG_RW\<close>, \<open>fs_image_file\<close> is
  \<open>fs->flags & EXT2_FLAG_IMAGE_FILE\<close>, \<open>fs_io_is_image_io\<close> is
  \<open>fs->io == fs->image_io\<close>.
\<close>

record ext2_filsys =
  fs_magic :: errcode_t
  fs_rw :: bool
  fs_image_file :: bool
  fs_io_is_image_io :: bool
  blocksize :: nat
  s_log_block_size :: nat
  s_inodes_count :: nat
  disk :: "nat \<Rightarrow> bytes"
  inode_tab :: "nat \<Rightarrow> ext2_inode"
  read_blk_err :: "nat \<Rightarrow> errcode_t"
  write_blk_err :: "nat \<Rightarrow> errcode_t"
  read_inode_err :: "nat \<Rightarrow> errcode_t"
  write_inode_err :: "nat \<Rightarrow> errcode_t"
  get_mem_err :: "memobj \<Rightarrow> errcode_t"

definition io_channel_read_blk :: "ext2_filsys \<Rightarrow> nat \<Rightarrow> error + bytes" where
  "io_channel_read_blk fs blk =
     (case read_blk_err fs blk of Some e \<Rightarrow> Inl e | None \<Rightarrow> Inr (disk fs blk))"

definition io_channel_write_blk :: "ext2_filsys \<Rightarrow> nat \<Rightarrow> bytes \<Rightarrow> errcode_t \<times> ext2_filsys" where
  "io_channel_write_blk fs blk data =
     (case write_blk_err fs blk of
        Some e \<Rightarrow> (Some e, fs)
      | None \<Rightarrow> (None, fs\<lparr>disk := (disk fs)(blk := data)\<rparr>))"

definition ext2fs_read_inode_full :: "ext2_filsys \<Rightarrow> nat \<Rightarrow> error + ext2_inode" where
  "ext2fs_read_inode_full fs n =
     (case read_inode_err fs n of Some e \<Rightarrow> Inl e | None \<Rightarrow> Inr (inode_tab fs n))"

definition ext2fs_write_inode_full ::
  "ext2_filsys \<Rightarrow> nat \<Rightarrow> ext2_inode \<Rightarrow> errcode_t \<times> ext2_filsys" where
  "ext2fs_write_inode_full fs n ind =
     (case write_inode_err fs n of
        Some e \<Rightarrow> (Some e, fs)
      | None \<Rightarrow> (None, fs\<lparr>inode_tab := (inode_tab fs)(n := ind)\<rparr>))"

text \<open>
  The frames of a handle and the frame at \<open>handle->path + handle->level\<close>.  An index
  outside the array is an access outside \<open>handle->path\<close> in C; the theorems below
  keep \<open>level\<close> inside the array.
\<close>

definition frames :: "ext2_extent_handle \<Rightarrow> extent_path list" where
  "frames h = (case path h of None \<Rightarrow> [] | Some p \<Rightarrow> p)"

definition frame_at :: "ext2_extent_handle \<Rightarrow> int \<Rightarrow> extent_path" where
  "frame_at h l = frames h ! nat l"

definition set_frame :: "ext2_extent_handle \<Rightarrow> int \<Rightarrow> extent_path \<Rightarrow> ext2_extent_handle" where
  "set_frame h l p = h\<lparr>path := Some ((frames h)[nat l := p])\<rparr>"

definition cur :: "ext2_extent_handle \<Rightarrow> extent_path" where
  "cur h = frame_at h (level h)"

definition set_cur :: "ext2_extent_handle \<Rightarrow> extent_path \<Rightarrow> ext2_extent_handle" where
  "set_cur h p = set_frame h (level h) p"

section \<open>Traversal engine\<close>

subsection \<open>The move decided at the label \<open>retry\<close>\<close>

definition decide_next :: "ext2_extent_handle \<Rightarrow> error + (ext_op \<times> ext2_extent_handle)" where
  "decide_next h =
     (let p = cur h in
      if level h < max_depth h then
        (if visit_num p = 0
         then Inr (EXT2_EXTENT_DOWN, set_cur h (p\<lparr>visit_num := visit_num p + 1\<rparr>))
         else if left p > 0 then Inr (EXT2_EXTENT_NEXT_SIB, h)
         else if level h > 0 then Inr (EXT2_EXTENT_UP, h)
         else Inl EXT2_ET_EXTENT_NO_NEXT)
      else
        (if left p > 0 then Inr (EXT2_EXTENT_NEXT_SIB, h)
         else if level h > 0 then Inr (EXT2_EXTENT_UP, h)
         else Inl EXT2_ET_EXTENT_NO_NEXT))"

definition decide_prev :: "ext2_extent_handle \<Rightarrow> error + (ext_op \<times> ext2_extent_handle)" where
  "decide_prev h =
     (let p = cur h in
      if level h < max_depth h then
        (if visit_num p > 0 then Inr (EXT2_EXTENT_DOWN_AND_LAST, h)
         else if left p < entries p - 1 then Inr (EXT2_EXTENT_PREV_SIB, h)
         else if level h > 0 then Inr (EXT2_EXTENT_UP, h)
         else Inl EXT2_ET_EXTENT_NO_PREV)
      else
        (if left p < entries p - 1 then Inr (EXT2_EXTENT_PREV_SIB, h)
         else if level h > 0 then Inr (EXT2_EXTENT_UP, h)
         else Inl EXT2_ET_EXTENT_NO_PREV))"

definition decide_last_leaf :: "ext2_extent_handle \<Rightarrow> ext_op" where
  "decide_last_leaf h =
     (if level h < max_depth h \<and> left (cur h) = 0 then EXT2_EXTENT_DOWN
      else EXT2_EXTENT_LAST_SIB)"

definition decide ::
  "ext_op \<Rightarrow> ext_op \<Rightarrow> ext2_extent_handle \<Rightarrow> error + (ext_op \<times> ext2_extent_handle)" where
  "decide orig_op op h =
     (if orig_op = EXT2_EXTENT_NEXT \<or> orig_op = EXT2_EXTENT_NEXT_LEAF then decide_next h
      else if orig_op = EXT2_EXTENT_PREV \<or> orig_op = EXT2_EXTENT_PREV_LEAF then decide_prev h
      else if orig_op = EXT2_EXTENT_LAST_LEAF then Inr (decide_last_leaf h, h)
      else Inr (op, h))"

subsection \<open>The switch on the operation\<close>

text \<open>
  Each case gives either the error it returns with, or the record pointer \<open>ix\<close> it
  leaves for the decoding step; both come with the handle as the case leaves it.
  The local pointer \<open>path\<close> is \<open>handle->path + handle->level\<close> at the end of every
  case, so it is not carried along.
\<close>

type_synonym move_result =
  "(error \<times> ext2_extent_handle) + (int option \<times> ext2_extent_handle)"

definition next_sib :: "ext2_extent_handle \<Rightarrow> move_result" where
  "next_sib h =
     (let p = cur h in
      if left p \<le> 0 then Inl (EXT2_ET_EXTENT_NO_NEXT, h)
      else
        let ix = (case curr p of Some c \<Rightarrow> c + 1 | None \<Rightarrow> 0)
        in Inr (Some ix, set_cur h (p\<lparr>left := left p - 1, curr := Some ix, visit_num := 0\<rparr>)))"

definition first_sib :: "ext2_extent_handle \<Rightarrow> move_result" where
  "first_sib h = next_sib (set_cur h ((cur h)\<lparr>left := entries (cur h), curr := None\<rparr>))"

definition root :: "ext2_extent_handle \<Rightarrow> move_result" where
  "root h = first_sib (h\<lparr>level := 0\<rparr>)"

definition prev_sib :: "ext2_extent_handle \<Rightarrow> move_result" where
  "prev_sib h =
     (let p = cur h in
      case curr p of
        None \<Rightarrow> Inl (EXT2_ET_EXTENT_NO_PREV, h)
      | Some c \<Rightarrow>
          if left p + 1 \<ge> entries p then Inl (EXT2_ET_EXTENT_NO_PREV, h)
          else
            let ix = c - 1;
                p1 = p\<lparr>curr := Some ix, left := left p + 1\<rparr>;
                p2 = (if level h < max_depth h then p1\<lparr>visit_num := 1\<rparr> else p1)
            in Inr (Some ix, set_cur h p2))"

definition last_sib :: "ext2_extent_handle \<Rightarrow> move_result" where
  "last_sib h =
     (let p = cur h in
      case buf p of
        None \<Rightarrow> Inl (SEGFAULT, h)
      | Some b \<Rightarrow>
          let ix = EXT_LAST_EXTENT b
          in Inr (Some ix, set_cur h (p\<lparr>curr := Some ix, left := 0, visit_num := 0\<rparr>)))"

definition up :: "ext_op \<Rightarrow> ext2_extent_handle \<Rightarrow> move_result" where
  "up orig_op h =
     (if level h \<le> 0 then Inl (EXT2_ET_EXTENT_NO_UP, h)
      else
        let h1 = h\<lparr>level := level h - 1\<rparr>;
            p = cur h1;
            ix = curr p
        in if orig_op = EXT2_EXTENT_PREV \<or> orig_op = EXT2_EXTENT_PREV_LEAF
           then Inr (ix, set_cur h1 (p\<lparr>visit_num := 0\<rparr>))
           else Inr (ix, h1))"

text \<open>
  \<open>EXT2_EXTENT_DOWN\<close> and \<open>EXT2_EXTENT_DOWN_AND_LAST\<close>.  A buffer that
  \<open>ext2fs_get_mem\<close> has just allocated holds arbitrary bytes in C; the model fills it
  with zeros, and it is overwritten before it is read.
\<close>

definition down :: "ext2_filsys \<Rightarrow> ext_op \<Rightarrow> ext2_extent_handle \<Rightarrow> move_result" where
  "down fs op h =
     (let p = cur h in
      case curr p of
        None \<Rightarrow> Inl (EXT2_ET_EXTENT_NO_DOWN, h)
      | Some ix \<Rightarrow>
          if level h \<ge> max_depth h then Inl (EXT2_ET_EXTENT_NO_DOWN, h)
          else
            let newpath = frame_at h (level h + 1) in
            (case (case buf newpath of
                     Some nb \<Rightarrow> Inr nb
                   | None \<Rightarrow>
                       (case get_mem_err fs (BUF_MEM (nat (level h + 1))) of
                          Some e \<Rightarrow> Inl e
                        | None \<Rightarrow> Inr (replicate (blocksize fs) 0))) of
               Inl e \<Rightarrow> Inl (e, h)
             | Inr nb0 \<Rightarrow>
                 let h1 = set_frame h (level h + 1) (newpath\<lparr>buf := Some nb0\<rparr>) in
                 (case buf p of
                    None \<Rightarrow> Inl (SEGFAULT, h1)
                  | Some b \<Rightarrow>
                      if rec_ptr ix < 0 then Inl (OUT_OF_BUFFER, h) else
                      let blk = child_blk b ix in
                      (case (if fs_image_file fs \<and> \<not> fs_io_is_image_io fs
                             then Inr (replicate (blocksize fs) 0)
                             else io_channel_read_blk fs (unat blk)) of
                         Inl e \<Rightarrow> Inl (e, h1)
                       | Inr nb \<Rightarrow>
                           let np1 = newpath\<lparr>buf := Some nb\<rparr>;
                               h2 = (set_frame h (level h + 1) np1)\<lparr>level := level h + 1\<rparr>
                           in
                           (case ext2fs_extent_header_verify nb (int (blocksize fs)) of
                              Some e \<Rightarrow> Inl (e, h2)
                            | None \<Rightarrow>
                                let np2 = np1\<lparr>left := uint (eh_entries nb),
                                              entries := uint (eh_entries nb),
                                              max_entries := uint (eh_max nb),
                                              end_blk := (if left p > 0
                                                          then ucast (ei_block b (ix + 1))
                                                          else end_blk p)\<rparr>;
                                    np3 = (if op = EXT2_EXTENT_DOWN
                                           then np2\<lparr>curr := Some 0,
                                                    left := entries np2 - 1,
                                                    visit_num := 0\<rparr>
                                           else
                                             let np = np2\<lparr>curr := Some (EXT_LAST_INDEX nb),
                                                          left := 0\<rparr>
                                             in if level h + 1 < max_depth h
                                                then np\<lparr>visit_num := 1\<rparr> else np)
                                in Inr (curr np3, set_cur h2 np3))))))"

definition move ::
  "ext2_filsys \<Rightarrow> ext_op \<Rightarrow> ext_op \<Rightarrow> ext2_extent_handle \<Rightarrow> move_result" where
  "move fs orig_op op h =
     (case op of
        EXT2_EXTENT_CURRENT \<Rightarrow> Inr (curr (cur h), h)
      | EXT2_EXTENT_ROOT \<Rightarrow> root h
      | EXT2_EXTENT_FIRST_SIB \<Rightarrow> first_sib h
      | EXT2_EXTENT_NEXT_SIB \<Rightarrow> next_sib h
      | EXT2_EXTENT_PREV_SIB \<Rightarrow> prev_sib h
      | EXT2_EXTENT_LAST_SIB \<Rightarrow> last_sib h
      | EXT2_EXTENT_UP \<Rightarrow> up orig_op h
      | EXT2_EXTENT_DOWN \<Rightarrow> down fs op h
      | EXT2_EXTENT_DOWN_AND_LAST \<Rightarrow> down fs op h
      | _ \<Rightarrow> Inl (EXT2_ET_OP_NOT_SUPPORTED, h))"

subsection \<open>Decoding the record at the cursor\<close>

definition decode :: "ext2_extent_handle \<Rightarrow> int \<Rightarrow> error + ext2fs_extent" where
  "decode h ix =
     (let p = cur h in
      case buf p of
        None \<Rightarrow> Inl SEGFAULT
      | Some b \<Rightarrow>
          if rec_ptr ix < 0 then Inl OUT_OF_BUFFER else
          let e =
            (if level h = max_depth h then
               let len = (ucast (ee_len b ix) :: 32 word) in
               \<lparr>e_pblk = ucast (ee_start b ix) + push_bit 32 (ucast (ee_start_hi b ix)),
                e_lblk = ucast (ee_block b ix),
                e_len = (if len > EXT_INIT_MAX_LEN then len - EXT_INIT_MAX_LEN else len),
                e_flags = (if len > EXT_INIT_MAX_LEN
                           then EXT2_EXTENT_FLAGS_LEAF OR EXT2_EXTENT_FLAGS_UNINIT
                           else EXT2_EXTENT_FLAGS_LEAF)\<rparr>
             else
               let lblk = (ucast (ei_block b ix) :: 64 word);
                   endb = (if left p > 0 then ucast (ei_block b (ix + 1)) else end_blk p)
               in
               \<lparr>e_pblk = ucast (ei_leaf b ix) + push_bit 32 (ucast (ei_leaf_hi b ix)),
                e_lblk = lblk,
                e_len = ucast (endb - lblk),
                e_flags = 0\<rparr>)
          in Inr (if visit_num p \<noteq> 0
                  then e\<lparr>e_flags := e_flags e OR EXT2_EXTENT_FLAGS_SECOND_VISIT\<rparr>
                  else e))"

subsection \<open>\<open>ext2fs_extent_get\<close>\<close>

text \<open>
  One pass from the label \<open>retry\<close> to the tests at the end of the function: the
  decision, the switch and the decoding.  It gives the error the pass returns with
  or the extent it has decoded, the operation the pass has settled on, and the
  handle.  The out-parameter \<open>extent\<close> is the \<open>Inr\<close> value; what a failing call
  leaves in it is not kept.
\<close>

definition get_body ::
  "ext2_filsys \<Rightarrow> ext_op \<Rightarrow> ext_op \<Rightarrow> ext2_extent_handle
     \<Rightarrow> (error + ext2fs_extent) \<times> ext_op \<times> ext2_extent_handle" where
  "get_body fs orig_op op h =
     (case decide orig_op op h of
        Inl e \<Rightarrow> (Inl e, op, h)
      | Inr (op1, h1) \<Rightarrow>
          (case move fs orig_op op1 h1 of
             Inl (e, h2) \<Rightarrow> (Inl e, op1, h2)
           | Inr (None, h2) \<Rightarrow> (Inl EXT2_ET_NO_CURRENT_NODE, op1, h2)
           | Inr (Some ix, h2) \<Rightarrow>
               (case decode h2 ix of
                  Inl e \<Rightarrow> (Inl e, op1, h2)
                | Inr ext \<Rightarrow> (Inr ext, op1, h2))))"

text \<open>The pass with the two tests that jump back to \<open>retry\<close>.\<close>

datatype pass_result =
    Done "error + ext2fs_extent" ext2_extent_handle
  | Retry ext_op ext2_extent_handle

definition get_pass ::
  "ext2_filsys \<Rightarrow> ext_op \<Rightarrow> ext_op \<Rightarrow> ext2_extent_handle \<Rightarrow> pass_result" where
  "get_pass fs orig_op op h =
     (case get_body fs orig_op op h of
        (Inl e, op1, h2) \<Rightarrow> Done (Inl e) h2
      | (Inr ext, op1, h2) \<Rightarrow>
          if (orig_op = EXT2_EXTENT_NEXT_LEAF \<or> orig_op = EXT2_EXTENT_PREV_LEAF)
             \<and> level h2 \<noteq> max_depth h2
          then Retry op1 h2
          else if orig_op = EXT2_EXTENT_LAST_LEAF
                  \<and> (level h2 \<noteq> max_depth h2 \<or> left (cur h2) \<noteq> 0)
          then Retry op1 h2
          else Done (Inr ext) h2)"

text \<open>
  The loop over the passes.  The result is \<open>None\<close> when the C function never
  returns.
\<close>

partial_function (option) extent_get_retry ::
  "ext2_filsys \<Rightarrow> ext_op \<Rightarrow> ext_op \<Rightarrow> ext2_extent_handle
     \<Rightarrow> ((error + ext2fs_extent) \<times> ext2_extent_handle) option" where
  "extent_get_retry fs orig_op op h =
     (case get_pass fs orig_op op h of
        Done r h1 \<Rightarrow> Some (r, h1)
      | Retry op1 h1 \<Rightarrow> extent_get_retry fs orig_op op1 h1)"

definition ext2fs_extent_get ::
  "ext2_filsys \<Rightarrow> ext2_extent_handle \<Rightarrow> ext_op
     \<Rightarrow> ((error + ext2fs_extent) \<times> ext2_extent_handle) option" where
  "ext2fs_extent_get fs h op =
     (if magic h \<noteq> Some EXT2_ET_MAGIC_EXTENT_HANDLE
      then Some (Inl EXT2_ET_MAGIC_EXTENT_HANDLE, h)
      else if path h = None then Some (Inl EXT2_ET_NO_CURRENT_NODE, h)
      else extent_get_retry fs op op h)"

section \<open>Seek to a logical block\<close>

text \<open>
  One turn of the \<open>while (1)\<close> loop of \<open>extent_goto\<close> up to the point where it
  returns, continues, or reaches the label \<open>go_down\<close>.  A call of
  \<open>ext2fs_extent_get\<close> that does not return makes the turn \<open>None\<close>.
\<close>

datatype goto_step =
    Stop errcode_t ext2_extent_handle
  | Continue ext2fs_extent ext2_extent_handle
  | Go_down ext2_extent_handle

definition goto_leaf_step ::
  "ext2_filsys \<Rightarrow> 64 word \<Rightarrow> ext2fs_extent \<Rightarrow> ext2_extent_handle \<Rightarrow> goto_step option" where
  "goto_leaf_step fs blk extent h =
     (if blk \<ge> e_lblk extent \<and> blk < e_lblk extent + ucast (e_len extent)
      then Some (Stop None h)
      else if blk < e_lblk extent then
        (case ext2fs_extent_get fs h EXT2_EXTENT_PREV_SIB of
           None \<Rightarrow> None
         | Some (r, h1) \<Rightarrow> Some (Stop (Some EXT2_ET_EXTENT_NOT_FOUND) h1))
      else
        (case ext2fs_extent_get fs h EXT2_EXTENT_NEXT_SIB of
           None \<Rightarrow> None
         | Some (Inl e, h1) \<Rightarrow>
             if e = EXT2_ET_EXTENT_NO_NEXT then Some (Stop (Some EXT2_ET_EXTENT_NOT_FOUND) h1)
             else Some (Stop (Some e) h1)
         | Some (Inr extent1, h1) \<Rightarrow> Some (Continue extent1 h1)))"

definition goto_index_step ::
  "ext2_filsys \<Rightarrow> 64 word \<Rightarrow> ext2_extent_handle \<Rightarrow> goto_step option" where
  "goto_index_step fs blk h =
     (case ext2fs_extent_get fs h EXT2_EXTENT_NEXT_SIB of
        None \<Rightarrow> None
      | Some (Inl e, h1) \<Rightarrow>
          if e = EXT2_ET_EXTENT_NO_NEXT then Some (Go_down h1) else Some (Stop (Some e) h1)
      | Some (Inr extent1, h1) \<Rightarrow>
          if blk = e_lblk extent1 then Some (Go_down h1)
          else if blk > e_lblk extent1 then Some (Continue extent1 h1)
          else
            (case ext2fs_extent_get fs h1 EXT2_EXTENT_PREV_SIB of
               None \<Rightarrow> None
             | Some (Inl e, h2) \<Rightarrow> Some (Stop (Some e) h2)
             | Some (Inr extent2, h2) \<Rightarrow> Some (Go_down h2)))"

definition goto_step ::
  "ext2_filsys \<Rightarrow> int \<Rightarrow> 64 word \<Rightarrow> ext2fs_extent \<Rightarrow> ext2_extent_handle \<Rightarrow> goto_step option" where
  "goto_step fs leaf_level blk extent h =
     (if level h - leaf_level = max_depth h then goto_leaf_step fs blk extent h
      else goto_index_step fs blk h)"




section \<open>Mutation engine\<close>

definition update_path :: "ext2_filsys \<Rightarrow> ext2_extent_handle \<Rightarrow> errcode_t \<times> ext2_filsys" where
  "update_path fs h =
     (if level h = 0 then
        (case inode h of
           None \<Rightarrow> (Some SEGFAULT, fs)
         | Some ind \<Rightarrow>
             (case buf (frame_at h 0) of
                None \<Rightarrow> (Some SEGFAULT, fs)
              | Some b \<Rightarrow> ext2fs_write_inode_full fs (ino h) (ind\<lparr>i_block := b\<rparr>)))
      else
        (case curr (frame_at h (level h - 1)) of
           None \<Rightarrow> (Some SEGFAULT, fs)
         | Some ix \<Rightarrow>
             (case buf (frame_at h (level h - 1)) of
                None \<Rightarrow> (Some SEGFAULT, fs)
              | Some pb \<Rightarrow>
                  if rec_ptr ix < 0 then (Some OUT_OF_BUFFER, fs) else
                  let blk = (ucast (ei_leaf pb ix) :: 64 word)
                              + push_bit 32 (ucast (ei_leaf_hi pb ix))
                  in (case buf (frame_at h (level h)) of
                        None \<Rightarrow> (Some SEGFAULT, fs)
                      | Some b \<Rightarrow> io_channel_write_blk fs (unat blk) b))))"

definition put_extent :: "bytes \<Rightarrow> int \<Rightarrow> ext2fs_extent \<Rightarrow> bytes" where
  "put_extent b ix extent =
     (let b1 = put_le32 b (rec_off ix) (ucast (e_lblk extent));
          b2 = put_le32 b1 (rec_off ix + 8) (ucast (e_pblk extent AND 0xFFFFFFFF));
          b3 = put_le16 b2 (rec_off ix + 6) (ucast (drop_bit 32 (e_pblk extent)))
      in put_le16 b3 (rec_off ix + 4) (ucast (e_len extent)))"

definition put_index :: "bytes \<Rightarrow> int \<Rightarrow> ext2fs_extent \<Rightarrow> bytes" where
  "put_index b ix extent =
     (let b1 = put_le32 b (rec_off ix + 4) (ucast (e_pblk extent AND 0xFFFFFFFF));
          b2 = put_le16 b1 (rec_off ix + 8) (ucast (drop_bit 32 (e_pblk extent)));
          b3 = put_le32 b2 (rec_off ix) (ucast (e_lblk extent))
      in put_le16 b3 (rec_off ix + 10) 0)"

definition ext2fs_extent_replace ::
  "ext2_filsys \<Rightarrow> ext2_extent_handle \<Rightarrow> ext2fs_extent
     \<Rightarrow> errcode_t \<times> ext2_extent_handle \<times> ext2_filsys" where
  "ext2fs_extent_replace fs h extent =
     (if magic h \<noteq> Some EXT2_ET_MAGIC_EXTENT_HANDLE
      then (Some EXT2_ET_MAGIC_EXTENT_HANDLE, h, fs)
      else if \<not> fs_rw fs then (Some EXT2_ET_RO_FILSYS, h, fs)
      else if path h = None then (Some EXT2_ET_NO_CURRENT_NODE, h, fs)
      else
        (case curr (cur h) of
           None \<Rightarrow> (Some EXT2_ET_NO_CURRENT_NODE, h, fs)
         | Some ix \<Rightarrow>
             (case buf (cur h) of
                None \<Rightarrow> (Some SEGFAULT, h, fs)
              | Some b \<Rightarrow>
                  if \<not> in_node b (rec_ptr ix) 12 then (Some OUT_OF_BUFFER, h, fs) else
                  let b1 = (if level h = max_depth h then put_extent b ix extent
                            else put_index b ix extent);
                      h1 = set_cur h ((cur h)\<lparr>buf := Some b1\<rparr>);
                      (r, fs1) = update_path fs h1
                  in (None, h1, fs1))))"

definition ext2fs_extent_delete ::
  "ext2_filsys \<Rightarrow> ext2_extent_handle \<Rightarrow> errcode_t \<times> ext2_extent_handle \<times> ext2_filsys" where
  "ext2fs_extent_delete fs h =
     (if magic h \<noteq> Some EXT2_ET_MAGIC_EXTENT_HANDLE
      then (Some EXT2_ET_MAGIC_EXTENT_HANDLE, h, fs)
      else if \<not> fs_rw fs then (Some EXT2_ET_RO_FILSYS, h, fs)
      else if path h = None then (Some EXT2_ET_NO_CURRENT_NODE, h, fs)
      else
        (case curr (cur h) of
           None \<Rightarrow> (Some EXT2_ET_NO_CURRENT_NODE, h, fs)
         | Some cp \<Rightarrow>
             (case buf (cur h) of
                None \<Rightarrow> (Some SEGFAULT, h, fs)
              | Some b \<Rightarrow>
                  let p = cur h in
                  (case (if left p \<noteq> 0
                         then map_option (\<lambda>b1. (b1, p\<lparr>left := left p - 1\<rparr>))
                                (memmove b (rec_ptr cp) (rec_ptr (cp + 1))
                                   (to_size_t (left p * 12)))
                         else Some (b, p\<lparr>curr := Some (cp - 1)\<rparr>)) of
                     None \<Rightarrow> (Some OUT_OF_BUFFER, h, fs)
                   | Some (b1, p1) \<Rightarrow>
                       let p2 = p1\<lparr>entries := entries p1 - 1\<rparr>;
                           p3 = (if entries p2 = 0 then p2\<lparr>curr := None\<rparr> else p2);
                           b2 = set_eh_entries b1 (word_of_int (entries p3));
                           h1 = set_cur h (p3\<lparr>buf := Some b2\<rparr>);
                           (r, fs1) = update_path fs h1
                       in (r, h1, fs1)))))"

text \<open>
  \<open>flags & EXT2_EXTENT_INSERT_AFTER\<close> is the argument \<open>after\<close>.  \<open>insert_slot\<close> is
  the part of \<open>ext2fs_extent_insert\<close> that opens the slot: it moves the cursor,
  shifts the records behind it and bumps the two entry counts.  It is \<open>None\<close> when
  the shift leaves the node buffer.
\<close>

definition insert_slot ::
  "ext2_extent_handle \<Rightarrow> bytes \<Rightarrow> bool \<Rightarrow> ext2_extent_handle option" where
  "insert_slot h b after =
     (let p = cur h;
          (ix, p1) =
            (case curr p of
               Some c \<Rightarrow> if after then (c + 1, p\<lparr>left := left p - 1\<rparr>) else (c, p)
             | None \<Rightarrow> (0, p));
          p2 = p1\<lparr>curr := Some ix\<rparr>
      in case (if left p2 \<ge> 0
               then memmove b (rec_ptr (ix + 1)) (rec_ptr ix) (to_size_t ((left p2 + 1) * 12))
               else Some b) of
           None \<Rightarrow> None
         | Some b1 \<Rightarrow>
             let p3 = p2\<lparr>left := left p2 + 1, entries := entries p2 + 1\<rparr>;
                 b2 = set_eh_entries b1 (word_of_int (entries p3))
             in Some (set_cur h (p3\<lparr>buf := Some b2\<rparr>)))"

definition ext2fs_extent_insert ::
  "ext2_filsys \<Rightarrow> ext2_extent_handle \<Rightarrow> bool \<Rightarrow> ext2fs_extent
     \<Rightarrow> errcode_t \<times> ext2_extent_handle \<times> ext2_filsys" where
  "ext2fs_extent_insert fs h after extent =
     (if magic h \<noteq> Some EXT2_ET_MAGIC_EXTENT_HANDLE
      then (Some EXT2_ET_MAGIC_EXTENT_HANDLE, h, fs)
      else if \<not> fs_rw fs then (Some EXT2_ET_RO_FILSYS, h, fs)
      else if path h = None then (Some EXT2_ET_NO_CURRENT_NODE, h, fs)
      else if entries (cur h) \<ge> max_entries (cur h)
      then (Some EXT2_ET_CANT_INSERT_EXTENT, h, fs)
      else
        (case buf (cur h) of
           None \<Rightarrow> (Some SEGFAULT, h, fs)
         | Some b \<Rightarrow>
             (case insert_slot h b after of
                None \<Rightarrow> (Some OUT_OF_BUFFER, h, fs)
              | Some hs \<Rightarrow>
                  (case ext2fs_extent_replace fs hs extent of
                     (Some e, h2, fs1) \<Rightarrow>
                       (case ext2fs_extent_delete fs1 h2 of
                          (r, h3, fs2) \<Rightarrow> (Some e, h3, fs2))
                   | (None, h2, fs1) \<Rightarrow>
                       (case update_path fs1 h2 of
                          (Some e, fs2) \<Rightarrow>
                            (case ext2fs_extent_delete fs2 h2 of
                               (r, h3, fs3) \<Rightarrow> (Some e, h3, fs3))
                        | (None, fs2) \<Rightarrow> (None, h2, fs2))))))"

section \<open>Geometry report\<close>

record ext2_extent_info =
  info_curr_entry :: int
  info_curr_level :: int
  info_num_entries :: int
  info_max_entries :: int
  info_max_depth :: int
  info_bytes_avail :: int
  info_max_lblk :: "64 word"
  info_max_pblk :: "64 word"
  info_max_len :: "32 word"
  info_max_uninit_len :: "32 word"

definition info_zero :: ext2_extent_info where
  "info_zero =
     \<lparr>info_curr_entry = 0, info_curr_level = 0, info_num_entries = 0,
      info_max_entries = 0, info_max_depth = 0, info_bytes_avail = 0,
      info_max_lblk = 0, info_max_pblk = 0, info_max_len = 0, info_max_uninit_len = 0\<rparr>"

text \<open>
  \<open>((char *) path->curr - path->buf) / sizeof(struct ext3_extent_idx)\<close>: the record
  with index \<open>c\<close> lies \<open>12 + 12 * c\<close> bytes behind \<open>path->buf\<close>.  The quotient
  and the product for \<open>bytes_avail\<close> are computed in \<open>size_t\<close> and stored in an
  \<open>int\<close>.  The pointer
  \<open>handle->path + handle->level\<close> is null only when \<open>handle->path\<close> is null and the
  level is 0.
\<close>

definition ext2fs_extent_get_info ::
  "ext2_extent_handle \<Rightarrow> errcode_t \<times> ext2_extent_info" where
  "ext2fs_extent_get_info h =
     (if magic h \<noteq> Some EXT2_ET_MAGIC_EXTENT_HANDLE
      then (Some EXT2_ET_MAGIC_EXTENT_HANDLE, info_zero)
      else
        let info1 =
          (if path h = None then info_zero
           else
             let p = cur h in
             info_zero\<lparr>info_curr_entry :=
                          (case curr p of
                             Some c \<Rightarrow>
                               to_int (to_size_t (12 + 12 * c) div sizeof_ext3_extent_idx)
                           | None \<Rightarrow> 0),
                        info_num_entries := entries p,
                        info_max_entries := max_entries p,
                        info_bytes_avail :=
                          to_int (to_size_t (to_size_t (max_entries p - entries p)
                                              * sizeof_ext3_extent))\<rparr>)
        in (None, info1\<lparr>info_curr_level := level h,
                        info_max_depth := max_depth h,
                        info_max_lblk := push_bit 32 1 - 1,
                        info_max_pblk := push_bit 48 1 - 1,
                        info_max_len := push_bit 15 1,
                        info_max_uninit_len := push_bit 15 1 - 1\<rparr>))"

section \<open>Opening and freeing a handle\<close>

text \<open>
  The allocations of a call are followed in the list of live memory objects:
  \<open>ext2fs_get_mem\<close> adds the object it allocates, \<open>ext2fs_free_mem\<close> removes the
  object it frees.
\<close>

definition ext2fs_get_mem ::
  "ext2_filsys \<Rightarrow> memobj \<Rightarrow> memobj list \<Rightarrow> errcode_t \<times> memobj list" where
  "ext2fs_get_mem fs obj live =
     (case get_mem_err fs obj of Some e \<Rightarrow> (Some e, live) | None \<Rightarrow> (None, obj # live))"

definition ext2fs_free_mem :: "memobj \<Rightarrow> memobj list \<Rightarrow> memobj list" where
  "ext2fs_free_mem obj live = remove1 obj live"

definition ext2fs_extent_free :: "ext2_extent_handle option \<Rightarrow> memobj list \<Rightarrow> memobj list" where
  "ext2fs_extent_free hopt live =
     (case hopt of
        None \<Rightarrow> live
      | Some h \<Rightarrow>
          let live1 = (if inode h \<noteq> None then ext2fs_free_mem INODE_MEM live else live);
              live2 =
                (case path h of
                   None \<Rightarrow> live1
                 | Some p \<Rightarrow>
                     ext2fs_free_mem PATH_MEM
                       (fold (\<lambda>i l. if buf (p ! i) \<noteq> None then ext2fs_free_mem (BUF_MEM i) l else l)
                          [1..<nat (max_depth h)] live1))
          in ext2fs_free_mem HANDLE_MEM live2)"

text \<open>
  Modelled from the spec: \<open>EXT2_BLOCK_SIZE_BITS\<close> is a macro of a header that is
  not among the sources; it is the binary logarithm of the block size, 10 more than
  the superblock's \<open>s_log_block_size\<close>.  \<open>EXT2_INODE_SIZE\<close> only sizes the inode
  buffer and is not modelled.
\<close>

definition EXT2_BLOCK_SIZE_BITS :: "ext2_filsys \<Rightarrow> nat" where
  "EXT2_BLOCK_SIZE_BITS fs = s_log_block_size fs + 10"

definition zero_path :: extent_path where
  "zero_path =
     \<lparr>buf = None, entries = 0, max_entries = 0, left = 0, visit_num = 0, flags = 0,
      end_blk = 0, curr = None\<rparr>"

definition zero_handle :: ext2_extent_handle where
  "zero_handle =
     \<lparr>magic = None, ino = 0, inode = None, htype = 0, level = 0, max_depth = 0,
      path = None\<rparr>"

text \<open>
  The inode buffer between its allocation and \<open>ext2fs_read_inode_full\<close>: the
  pointer is set, the contents are not read before they are overwritten.
\<close>

definition fresh_inode :: ext2_inode where
  "fresh_inode = \<lparr>i_flags = 0, i_size = 0, i_size_high = 0, i_block = replicate 60 0\<rparr>"

definition ext2fs_extent_open ::
  "ext2_filsys \<Rightarrow> nat \<Rightarrow> memobj list
     \<Rightarrow> errcode_t \<times> ext2_extent_handle option \<times> memobj list" where
  "ext2fs_extent_open fs n live =
     (if fs_magic fs \<noteq> Some EXT2_ET_MAGIC_EXT2FS_FILSYS
      then (Some EXT2_ET_MAGIC_EXT2FS_FILSYS, None, live)
      else if n = 0 \<or> n > s_inodes_count fs then (Some EXT2_ET_BAD_INODE_NUM, None, live)
      else
        (case ext2fs_get_mem fs HANDLE_MEM live of
           (Some e, live1) \<Rightarrow> (Some e, None, live1)
         | (None, live1) \<Rightarrow>
             (case ext2fs_get_mem fs INODE_MEM live1 of
                (Some e, live2) \<Rightarrow> (Some e, None, ext2fs_extent_free (Some zero_handle) live2)
              | (None, live2) \<Rightarrow>
                  let h1 = zero_handle\<lparr>inode := Some fresh_inode, ino := n\<rparr> in
                  (case ext2fs_read_inode_full fs n of
                     Inl e \<Rightarrow> (Some e, None, ext2fs_extent_free (Some h1) live2)
                   | Inr ind \<Rightarrow>
                       if i_flags ind AND EXT4_EXTENTS_FL = 0
                       then (Some EXT2_ET_INODE_NOT_EXTENT, None, live2)
                       else
                         (case ext2fs_extent_header_verify (i_block ind) 60 of
                            Some e \<Rightarrow> (Some e, None, live2)
                          | None \<Rightarrow>
                              let eh = i_block ind;
                                  h2 = h1\<lparr>inode := Some ind,
                                         max_depth := uint (eh_depth eh),
                                         htype := uint (eh_magic eh)\<rparr>
                              in
                              (case ext2fs_get_mem fs PATH_MEM live2 of
                                 (Some e, live3) \<Rightarrow> (Some SEGFAULT, None, live3)
                               | (None, live3) \<Rightarrow>
                                   let p0 = zero_path\<lparr>
                                         buf := Some eh,
                                         left := uint (eh_entries eh),
                                         entries := uint (eh_entries eh),
                                         max_entries := uint (eh_max eh),
                                         curr := None,
                                         end_blk :=
                                           drop_bit (EXT2_BLOCK_SIZE_BITS fs)
                                             (push_bit 32 (ucast (i_size_high ind))
                                              + ucast (i_size ind)
                                              + ucast (word_of_nat (blocksize fs) - 1 :: 32 word)),
                                         visit_num := 1\<rparr>;
                                       h3 = h2\<lparr>path := Some (p0 # replicate (nat (max_depth h2)) zero_path),
                                              level := 0,
                                              magic := Some EXT2_ET_MAGIC_EXTENT_HANDLE\<rparr>
                                   in (None, Some h3, live3)))))))"

section \<open>Extent trees on disk\<close>









section \<open>Example trees\<close>

text \<open>
  A root that is a leaf with the single extent (logical 0, physical 100, length 8)
  and capacity 4.
\<close>

definition ex_root1 :: bytes where
  "ex_root1 =
     [0x0a, 0xf3, 1, 0, 4, 0, 0, 0, 0, 0, 0, 0,
      0, 0, 0, 0, 8, 0, 0, 0, 100, 0, 0, 0] @ replicate 36 0"

text \<open>The same root filled to its capacity of 4 extents.\<close>

definition ex_root_full :: bytes where
  "ex_root_full =
     [0x0a, 0xf3, 4, 0, 4, 0, 0, 0, 0, 0, 0, 0,
      0, 0, 0, 0, 8, 0, 0, 0, 100, 0, 0, 0,
      8, 0, 0, 0, 8, 0, 0, 0, 200, 0, 0, 0,
      16, 0, 0, 0, 8, 0, 0, 0, 44, 1, 0, 0,
      24, 0, 0, 0, 8, 0, 0, 0, 144, 1, 0, 0]"

text \<open>
  A tree of depth 1: the root has the index records (0, block 10) and (16, block
  11); block 10 holds the extents (0, 100, 4) and (4, 200, 8), block 11 the extents
  (16, 300, 8) and (24, 400, 8).  The logical blocks 12 to 15 are a hole.
\<close>

definition ex_root2 :: bytes where
  "ex_root2 =
     [0x0a, 0xf3, 2, 0, 4, 0, 1, 0, 0, 0, 0, 0,
      0, 0, 0, 0, 10, 0, 0, 0, 0, 0, 0, 0,
      16, 0, 0, 0, 11, 0, 0, 0, 0, 0, 0, 0] @ replicate 24 0"

definition ex_blk10 :: bytes where
  "ex_blk10 =
     [0x0a, 0xf3, 2, 0, 84, 0, 0, 0, 0, 0, 0, 0,
      0, 0, 0, 0, 4, 0, 0, 0, 100, 0, 0, 0,
      4, 0, 0, 0, 8, 0, 0, 0, 200, 0, 0, 0] @ replicate 988 0"

definition ex_blk11 :: bytes where
  "ex_blk11 =
     [0x0a, 0xf3, 2, 0, 84, 0, 0, 0, 0, 0, 0, 0,
      16, 0, 0, 0, 8, 0, 0, 0, 44, 1, 0, 0,
      24, 0, 0, 0, 8, 0, 0, 0, 144, 1, 0, 0] @ replicate 988 0"

text \<open>A block whose header has a wrong magic number and claims 3 entries.\<close>

definition ex_blk_bad :: bytes where
  "ex_blk_bad = [0, 0, 3, 0, 84, 0, 0, 0, 0, 0, 0, 0] @ replicate 1012 0"

definition ex_inode :: "bytes \<Rightarrow> ext2_inode" where
  "ex_inode b = \<lparr>i_flags = EXT4_EXTENTS_FL, i_size = 32768, i_size_high = 0, i_block = b\<rparr>"

text \<open>
  A writable filesystem with 1024-byte blocks whose inodes all hold the root
  \<open>rt\<close>, and whose blocks 10 and 11 are \<open>b10\<close> and \<open>b11\<close>; no collaborator fails.
\<close>

definition ex_fs :: "bytes \<Rightarrow> bytes \<Rightarrow> bytes \<Rightarrow> ext2_filsys" where
  "ex_fs rt b10 b11 =
     \<lparr>fs_magic = Some EXT2_ET_MAGIC_EXT2FS_FILSYS,
      fs_rw = True, fs_image_file = False, fs_io_is_image_io = True,
      blocksize = 1024, s_log_block_size = 0, s_inodes_count = 32,
      disk = (\<lambda>n. if n = 10 then b10 else if n = 11 then b11 else replicate 1024 0),
      inode_tab = (\<lambda>n. ex_inode rt),
      read_blk_err = (\<lambda>n. None), write_blk_err = (\<lambda>n. None),
      read_inode_err = (\<lambda>n. None), write_inode_err = (\<lambda>n. None),
      get_mem_err = (\<lambda>obj. None)\<rparr>"

text \<open>
  The handle \<open>ext2fs_extent_open\<close> returns for inode 12 whose root is \<open>rt\<close>, of
  depth \<open>d\<close> with \<open>n\<close> entries of at most 4.
\<close>

definition ex_handle :: "bytes \<Rightarrow> int \<Rightarrow> int \<Rightarrow> ext2_extent_handle" where
  "ex_handle rt d n =
     \<lparr>magic = Some EXT2_ET_MAGIC_EXTENT_HANDLE, ino = 12, inode = Some (ex_inode rt),
      htype = 0xf30a, level = 0, max_depth = d,
      path = Some (\<lparr>buf = Some rt, entries = n, max_entries = 4, left = n, visit_num = 1,
                     flags = 0, end_blk = 32, curr = None\<rparr> # replicate (nat d) zero_path)\<rparr>"

text \<open>The same handle with the cursor of the root frame on record \<open>c\<close>.\<close>

definition ex_handle_at :: "bytes \<Rightarrow> int \<Rightarrow> int \<Rightarrow> int \<Rightarrow> ext2_extent_handle" where
  "ex_handle_at rt d n c =
     \<lparr>magic = Some EXT2_ET_MAGIC_EXTENT_HANDLE, ino = 12, inode = Some (ex_inode rt),
      htype = 0xf30a, level = 0, max_depth = d,
      path = Some (\<lparr>buf = Some rt, entries = n, max_entries = 4, left = n - 1 - c,
                     visit_num = 0, flags = 0, end_blk = 32, curr = Some c\<rparr>
                   # replicate (nat d) zero_path)\<rparr>"

text \<open>
  The filesystem of the tree of depth 1 in which every write of an inode or of a
  block fails with the collaborator's code 5.
\<close>

definition ex_fs_wfail :: "bytes \<Rightarrow> ext2_filsys" where
  "ex_fs_wfail rt =
     (ex_fs rt ex_blk10 ex_blk11)\<lparr>write_inode_err := (\<lambda>n. Some (COLLABORATOR 5)),
                                  write_blk_err := (\<lambda>n. Some (COLLABORATOR 5))\<rparr>"

text \<open>
  The handle on the tree of depth 1 after \<open>EXT2_EXTENT_ROOT\<close> and
  \<open>EXT2_EXTENT_DOWN\<close>: the cursor is on the first extent of block 10.
\<close>

definition ex_handle_leaf :: ext2_extent_handle where
  "ex_handle_leaf =
     \<lparr>magic = Some EXT2_ET_MAGIC_EXTENT_HANDLE, ino = 12, inode = Some (ex_inode ex_root2),
      htype = 0xf30a, level = 1, max_depth = 1,
      path = Some [\<lparr>buf = Some ex_root2, entries = 2, max_entries = 4, left = 1,
                     visit_num = 0, flags = 0, end_blk = 32, curr = Some 0\<rparr>,
                   \<lparr>buf = Some ex_blk10, entries = 2, max_entries = 84, left = 1,
                     visit_num = 0, flags = 0, end_blk = 16, curr = Some 0\<rparr>]\<rparr>"

text \<open>A root region whose header has a wrong magic number.\<close>

definition ex_root_bad :: bytes where
  "ex_root_bad = replicate 60 0"

text \<open>A root that is a leaf without extents (an empty file), with capacity 4.\<close>

definition ex_root_empty :: bytes where
  "ex_root_empty = [0x0a, 0xf3, 0, 0, 4, 0, 0, 0, 0, 0, 0, 0] @ replicate 48 0"

text \<open>
  A root that is a leaf with the extents (0, 100, 8), (8, 200, 8) and (16, 300, 8):
  3 of its 4 records are in use.
\<close>

definition ex_root3 :: bytes where
  "ex_root3 =
     [0x0a, 0xf3, 3, 0, 4, 0, 0, 0, 0, 0, 0, 0,
      0, 0, 0, 0, 8, 0, 0, 0, 100, 0, 0, 0,
      8, 0, 0, 0, 8, 0, 0, 0, 200, 0, 0, 0,
      16, 0, 0, 0, 8, 0, 0, 0, 44, 1, 0, 0] @ replicate 12 0"

text \<open>
  The filesystem of the tree of depth 1 in which block 10 has been overwritten by
  the block with the bad header.
\<close>

definition ex_fs_corrupt :: ext2_filsys where
  "ex_fs_corrupt = ex_fs ex_root2 ex_blk_bad ex_blk11"

section \<open>Handles on a tree\<close>

text \<open>
  The frames of a handle as \<open>ext2fs_extent_open\<close> allocates them: one frame for
  every level from 0 to \<open>max_depth\<close>; a frame below the root that has no buffer
  yet can get one from the allocator.
\<close>

definition frames_ok :: "ext2_filsys \<Rightarrow> ext2_extent_handle \<Rightarrow> bool" where
  "frames_ok fs h =
     (magic h = Some EXT2_ET_MAGIC_EXTENT_HANDLE \<and> 0 \<le> max_depth h \<and>
      (case path h of
         None \<Rightarrow> False
       | Some fr \<Rightarrow>
           length fr = nat (max_depth h) + 1 \<and>
           (\<forall>l \<in> set [1..<length fr].
              buf (fr ! l) = None \<longrightarrow> get_mem_err fs (BUF_MEM l) = None)))"

text \<open>
  The current frame holds the node \<open>b\<close> with the cursor on its record \<open>i\<close>: the
  frame's counts are those of the node's header, and \<open>left\<close> counts the records
  behind the cursor.  A leaf frame is on its first visit.
\<close>

definition positioned :: "ext2_extent_handle \<Rightarrow> bytes \<Rightarrow> int \<Rightarrow> bool" where
  "positioned h b i =
     (buf (cur h) = Some b \<and> entries (cur h) = uint (eh_entries b) \<and>
      curr (cur h) = Some i \<and> 0 \<le> i \<and> left (cur h) = uint (eh_entries b) - 1 - i \<and>
      (level h = max_depth h \<longrightarrow> visit_num (cur h) = 0))"

section \<open>Basic facts about the codec\<close>

lemma cat16:
  "ucast (ucast v :: 8 word) OR push_bit 8 (ucast (ucast (drop_bit 8 v) :: 8 word)) = (v :: 16 word)"
  by (rule bit_word_eqI) (auto simp: bit_simps)


lemma length_put_le16 [simp]: "length (put_le16 b off v) = length b"
  by (simp add: put_le16_def)

lemma length_put_le32 [simp]: "length (put_le32 b off v) = length b"
  by (simp add: put_le32_def)

lemma get_put_le16_same: "off + 1 < length b \<Longrightarrow> get_le16 (put_le16 b off v) off = v"
  by (simp add: get_le16_def put_le16_def cat16)

lemma get_put_le16_other:
  "off' + 2 \<le> off \<or> off + 2 \<le> off' \<Longrightarrow> get_le16 (put_le16 b off v) off' = get_le16 b off'"
  by (auto simp: get_le16_def put_le16_def)


lemma get16_put32_other:
  "off' + 2 \<le> off \<or> off + 4 \<le> off' \<Longrightarrow> get_le16 (put_le32 b off v) off' = get_le16 b off'"
  by (auto simp: put_le32_def get_put_le16_other)



lemma to_int_id: "- (2 ^ 31) \<le> x \<Longrightarrow> x < 2 ^ 31 \<Longrightarrow> to_int x = x"
  by (simp add: to_int_def)

lemma to_size_t_id: "0 \<le> x \<Longrightarrow> x < 2 ^ 64 \<Longrightarrow> to_size_t x = x"
  by (simp add: to_size_t_def)

lemma minus_one_word16: "(- 1 :: 16 word) = 65535"
  by simp

text \<open>Unfolding sets for the evaluation of the engine on concrete trees.\<close>

lemmas codec_defs =
  eh_magic_def eh_entries_def eh_max_def eh_depth_def set_eh_entries_def rec_off_def
  rec_ptr_def in_node_def
  ee_block_def ee_len_def ee_start_hi_def ee_start_def
  ei_block_def ei_leaf_def ei_leaf_hi_def ei_unused_def child_blk_def
  EXT_LAST_INDEX_def EXT_LAST_EXTENT_def EXT3_EXT_MAGIC_def EXT_INIT_MAX_LEN_def
  get_le16_def get_le32_def put_le16_def put_le32_def
  sizeof_ext3_extent_def sizeof_ext3_extent_idx_def sizeof_ext3_extent_header_def
  to_int_def to_size_t_def

lemmas get_defs =
  ext2fs_extent_get_def get_pass_def get_body_def decide_def decide_next_def decide_prev_def
  decide_last_leaf_def move_def next_sib_def first_sib_def root_def prev_sib_def
  last_sib_def up_def down_def decode_def io_channel_read_blk_def
  ext2fs_extent_header_verify_def EXT2_EXTENT_FLAGS_LEAF_def EXT2_EXTENT_FLAGS_UNINIT_def
  EXT2_EXTENT_FLAGS_SECOND_VISIT_def

lemmas mutation_defs =
  update_path_def ext2fs_extent_replace_def ext2fs_extent_delete_def
  ext2fs_extent_insert_def insert_slot_def ext2fs_write_inode_full_def io_channel_write_blk_def
  put_extent_def put_index_def memmove_def

lemmas open_defs =
  ext2fs_extent_open_def ext2fs_get_mem_def ext2fs_free_mem_def ext2fs_extent_free_def
  ext2fs_read_inode_full_def ext2fs_extent_header_verify_def EXT2_BLOCK_SIZE_BITS_def
  fresh_inode_def

lemmas frame_defs = frames_def frame_at_def set_frame_def cur_def set_cur_def

lemmas example_defs =
  ex_root1_def ex_root_full_def ex_root2_def ex_blk10_def ex_blk11_def ex_blk_bad_def
  ex_inode_def ex_fs_def ex_handle_def ex_handle_at_def zero_path_def zero_handle_def
  ex_fs_wfail_def ex_handle_leaf_def ex_root_bad_def ex_root_empty_def ex_fs_corrupt_def
  ex_root3_def
  EXT4_EXTENTS_FL_def

section \<open>Round trips through the on-disk widths\<close>





section \<open>Frames of a handle\<close>


lemma set_cur_fields [simp]:
  "level (set_cur h q) = level h" "max_depth (set_cur h q) = max_depth h"
  "magic (set_cur h q) = magic h" "inode (set_cur h q) = inode h" "ino (set_cur h q) = ino h"
  "path (set_cur h q) \<noteq> None"
  by (simp_all add: frame_defs)

lemma set_frame_fields [simp]:
  "level (set_frame h l q) = level h" "max_depth (set_frame h l q) = max_depth h"
  "magic (set_frame h l q) = magic h" "inode (set_frame h l q) = inode h"
  "ino (set_frame h l q) = ino h" "path (set_frame h l q) \<noteq> None"
  by (simp_all add: frame_defs)

lemma get_single:
  assumes "magic h = Some EXT2_ET_MAGIC_EXTENT_HANDLE" and "path h \<noteq> None"
    and "op \<noteq> EXT2_EXTENT_NEXT_LEAF" and "op \<noteq> EXT2_EXTENT_PREV_LEAF"
    and "op \<noteq> EXT2_EXTENT_LAST_LEAF"
  shows "ext2fs_extent_get fs h op =
           Some (case get_body fs op op h of (r, op1, h1) \<Rightarrow> (r, h1))"
  using assms
  by (subst ext2fs_extent_get_def, subst extent_get_retry.simps)
     (auto simp: get_pass_def split: prod.splits sum.splits)


lemma rec_off_nonneg: "0 \<le> ix \<Longrightarrow> rec_off ix = 12 + 12 * nat ix"
  by (simp add: rec_off_def nat_add_distrib nat_mult_distrib)



text \<open>A record in front of the buffer is never decoded or overwritten.\<close>

lemma decode_in_front:
  "buf (cur h) = Some b \<Longrightarrow> ix < - 1 \<Longrightarrow> decode h ix = Inl OUT_OF_BUFFER"
  by (simp add: decode_def rec_ptr_def)

lemma replace_in_front:
  assumes "magic h = Some EXT2_ET_MAGIC_EXTENT_HANDLE" and "fs_rw fs" and "path h = Some p"
    and "curr (cur h) = Some ix" and "buf (cur h) = Some b" and "ix < - 1"
  shows "ext2fs_extent_replace fs h E = (Some OUT_OF_BUFFER, h, fs)"
  using assms by (simp add: ext2fs_extent_replace_def in_node_def rec_ptr_def)

section \<open>The header verifier\<close>

lemma to_int_small:
  assumes a: "sz < 12" "- (2 ^ 31) \<le> sz"
  shows "65538 \<le> to_int (to_size_t (sz - 12) div 12)"
proof -
  have s: "to_size_t (sz - 12) = 18446744073709551616 + (sz - 12)"
  proof -
    have "(sz - 12) mod 18446744073709551616
            = (18446744073709551616 + (sz - 12)) mod 18446744073709551616"
      by (simp only: mod_add_self1)
    also have "\<dots> = 18446744073709551616 + (sz - 12)"
      using a by (intro mod_pos_pos_trivial) simp_all
    finally show ?thesis by (simp add: to_size_t_def)
  qed
  define x where "x = 18446744073709551616 + (sz - 12)"
  define q where "q = x div 12"
  have e: "x = 12 * q + x mod 12" by (simp add: q_def)
  have m: "0 \<le> x mod 12" "x mod 12 < 12" by simp_all
  have xb: "18446744071562067956 \<le> x" "x \<le> 18446744073709551615"
    using a by (simp_all add: x_def)
  have d1: "q \<ge> 1537228672630172000" and d2: "q \<le> 1537228672809129400"
    using e m xb by linarith+
  define r where "r = q - 357913941 * 4294967296"
  have r: "1252698000 \<le> r" "r \<le> 1431656000" using d1 d2 by (simp_all add: r_def)
  have "q + 2147483648 = r + 2147483648 + 357913941 * 4294967296"
    by (simp add: r_def)
  then have "(q + 2147483648) mod 4294967296
               = (r + 2147483648 + 357913941 * 4294967296) mod 4294967296"
    by (rule arg_cong)
  also have "\<dots> = (r + 2147483648) mod 4294967296"
    by (rule mod_mult_self1)
  also have "\<dots> = r + 2147483648"
    using r by (intro mod_pos_pos_trivial) simp_all
  finally have "to_int q = r" by (simp add: to_int_def)
  then show ?thesis using r s by (simp add: q_def x_def)
qed

text \<open>
  C4.  For every header and every region size (a C \<open>int\<close>), the verifier returns
  \<open>EXT2_ET_EXTENT_HEADER_BAD\<close> exactly when the magic does not match, or
  \<open>entries > max\<close>, or \<open>max\<close> lies outside \<open>[capacity - 2, capacity]\<close> with
  \<open>capacity = (size - 12) div 12\<close>; otherwise it returns 0.  The record size is 12
  whatever the depth in the header is: the result does not depend on \<open>eh_depth\<close>.
  For a region of fewer than 12 bytes the capacity is negative and every header is
  rejected.
\<close>

theorem header_verify_iff:
  assumes "- (2 ^ 31) \<le> sz" and "sz < 2 ^ 31"
  shows "ext2fs_extent_header_verify ptr sz =
     (if eh_magic ptr \<noteq> EXT3_EXT_MAGIC \<or> uint (eh_entries ptr) > uint (eh_max ptr)
         \<or> \<not> ((sz - 12) div 12 - 2 \<le> uint (eh_max ptr)
               \<and> uint (eh_max ptr) \<le> (sz - 12) div 12)
      then Some EXT2_ET_EXTENT_HEADER_BAD else None)"
proof (cases "12 \<le> sz")
  case True
  then have "to_size_t (sz - 12) = sz - 12"
    using assms by (simp add: to_size_t_def)
  moreover have "to_int ((sz - 12) div 12) = (sz - 12) div 12"
    using True assms by (simp add: to_int_def)
  ultimately show ?thesis
    by (auto simp: ext2fs_extent_header_verify_def Let_def sizeof_ext3_extent_def
        sizeof_ext3_extent_idx_def sizeof_ext3_extent_header_def)
next
  case False
  have m: "uint (eh_max ptr) < 65536"
    using uint_bounded [of "eh_max ptr"] by simp
  have m0: "0 \<le> uint (eh_max ptr)" by simp
  from False assms have big: "65538 \<le> to_int (to_size_t (sz - 12) div 12)"
    by (intro to_int_small) simp_all
  from False have neg: "(sz - 12) div 12 < 0" by simp
  have outside: "\<not> ((sz - 12) div 12 - 2 \<le> uint (eh_max ptr)
                     \<and> uint (eh_max ptr) \<le> (sz - 12) div 12)"
    using neg m0 by linarith
  have lt: "uint (eh_max ptr) < to_int (to_size_t (sz - 12) div 12) - 2"
    using big m by linarith
  have "ext2fs_extent_header_verify ptr sz = Some EXT2_ET_EXTENT_HEADER_BAD"
    using lt by (simp add: ext2fs_extent_header_verify_def Let_def sizeof_ext3_extent_def
        sizeof_ext3_extent_idx_def sizeof_ext3_extent_header_def)
  then show ?thesis using outside by simp
qed

theorem header_verify_iff_witness:
  "ext2fs_extent_header_verify ex_root2 60 = None
   \<and> ext2fs_extent_header_verify ex_blk10 1024 = None
   \<and> ext2fs_extent_header_verify ex_blk_bad 1024 = Some EXT2_ET_EXTENT_HEADER_BAD
   \<and> ext2fs_extent_header_verify ex_root2 1024 = Some EXT2_ET_EXTENT_HEADER_BAD"
proof -
  have 1: "ext2fs_extent_header_verify ex_root2 60 = None"
    using header_verify_iff [of 60 ex_root2]
    by (simp add: codec_defs example_defs)
  have 2: "ext2fs_extent_header_verify ex_blk10 1024 = None"
    using header_verify_iff [of 1024 ex_blk10]
    by (simp add: codec_defs example_defs)
  have 3: "ext2fs_extent_header_verify ex_blk_bad 1024 = Some EXT2_ET_EXTENT_HEADER_BAD"
    using header_verify_iff [of 1024 ex_blk_bad]
    by (simp add: codec_defs example_defs)
  have 4: "ext2fs_extent_header_verify ex_root2 1024 = Some EXT2_ET_EXTENT_HEADER_BAD"
    using header_verify_iff [of 1024 ex_root2]
    by (simp add: codec_defs example_defs)
  from 1 2 3 4 show ?thesis by simp
qed

section \<open>Insertion into a full frame\<close>

text \<open>
  C5.  On a writable filesystem, inserting into a handle whose current frame is full
  (\<open>entries = max_entries\<close>) returns \<open>EXT2_ET_CANT_INSERT_EXTENT\<close> and changes
  nothing: the handle (every frame, with its buffer and cursor) and the filesystem
  (with its device contents) are the ones passed in.
\<close>

theorem insert_full_frame:
  assumes "magic h = Some EXT2_ET_MAGIC_EXTENT_HANDLE" and "fs_rw fs" and "path h = Some p"
    and "entries (cur h) = max_entries (cur h)"
  shows "ext2fs_extent_insert fs h after extent = (Some EXT2_ET_CANT_INSERT_EXTENT, h, fs)"
  using assms by (simp add: ext2fs_extent_insert_def)

theorem insert_full_frame_witness:
  "ext2fs_extent_insert (ex_fs ex_root_full [] []) (ex_handle_at ex_root_full 0 4 3) True
     \<lparr>e_pblk = 500, e_lblk = 32, e_len = 8, e_flags = 0\<rparr>
   = (Some EXT2_ET_CANT_INSERT_EXTENT, ex_handle_at ex_root_full 0 4 3,
      ex_fs ex_root_full [] [])"
  by (rule insert_full_frame [where p = "the (path (ex_handle_at ex_root_full 0 4 3))"])
     (simp_all add: example_defs frame_defs)

section \<open>The geometry report\<close>

text \<open>
  C9.  For a handle whose current frame holds the counts of a verified header
  (\<open>0 \<le> entries \<le> max_entries \<le> 65535\<close>, the cursor on none or on one of the
  records), \<open>ext2fs_extent_get_info\<close> succeeds and reports: the position of the
  cursor's record in its frame, counted from 1 (the record with index \<open>c\<close> is
  reported as \<open>c + 1\<close>), and 0 when there is no current record; the frame's entry
  count and capacity; \<open>bytes_avail = (max_entries - entries) * 12\<close>; the current
  level and the maximal depth; and the limits \<open>2^32 - 1\<close>, \<open>2^48 - 1\<close>, \<open>2^15\<close> and
  \<open>2^15 - 1\<close>.
\<close>

theorem get_info_report:
  assumes "magic h = Some EXT2_ET_MAGIC_EXTENT_HANDLE" and "path h = Some p"
    and "0 \<le> entries (cur h)" and "entries (cur h) \<le> max_entries (cur h)"
    and "max_entries (cur h) \<le> 65535"
    and "\<And>c. curr (cur h) = Some c \<Longrightarrow> 0 \<le> c \<and> c \<le> 65535"
  shows "ext2fs_extent_get_info h =
     (None,
      \<lparr>info_curr_entry = (case curr (cur h) of None \<Rightarrow> 0 | Some c \<Rightarrow> c + 1),
       info_curr_level = level h,
       info_num_entries = entries (cur h),
       info_max_entries = max_entries (cur h),
       info_max_depth = max_depth h,
       info_bytes_avail = (max_entries (cur h) - entries (cur h)) * 12,
       info_max_lblk = 2 ^ 32 - 1,
       info_max_pblk = 2 ^ 48 - 1,
       info_max_len = 2 ^ 15,
       info_max_uninit_len = 2 ^ 15 - 1\<rparr>)"
proof -
  let ?d = "max_entries (cur h) - entries (cur h)"
  have d: "0 \<le> ?d" "?d \<le> 65535" using assms by simp_all
  have a: "to_int (to_size_t (to_size_t ?d * 12)) = ?d * 12"
    using d by (simp add: to_int_id to_size_t_id)
  have c: "to_int (to_size_t (12 + 12 * c) div 12) = c + 1" if "curr (cur h) = Some c" for c
  proof -
    from assms(6) [OF that] have "0 \<le> c" "c \<le> 65535" by simp_all
    then show ?thesis by (simp add: to_int_id to_size_t_id)
  qed
  show ?thesis
    using assms(1,2) a c
    by (simp add: ext2fs_extent_get_info_def info_zero_def sizeof_ext3_extent_def
        sizeof_ext3_extent_idx_def Let_def split: option.splits)
qed

theorem get_info_report_witness:
  "ext2fs_extent_get_info (ex_handle_at ex_root2 1 2 1) =
     (None,
      \<lparr>info_curr_entry = 2, info_curr_level = 0, info_num_entries = 2,
       info_max_entries = 4, info_max_depth = 1, info_bytes_avail = 24,
       info_max_lblk = 4294967295, info_max_pblk = 281474976710655,
       info_max_len = 32768, info_max_uninit_len = 32767\<rparr>)
   \<and> info_curr_entry (snd (ext2fs_extent_get_info (ex_handle ex_root2 1 2))) = 0"
proof -
  have 1: "ext2fs_extent_get_info (ex_handle_at ex_root2 1 2 1) =
     (None,
      \<lparr>info_curr_entry = 2, info_curr_level = 0, info_num_entries = 2,
       info_max_entries = 4, info_max_depth = 1, info_bytes_avail = 24,
       info_max_lblk = 4294967295, info_max_pblk = 281474976710655,
       info_max_len = 32768, info_max_uninit_len = 32767\<rparr>)"
    using get_info_report [of "ex_handle_at ex_root2 1 2 1"
        "the (path (ex_handle_at ex_root2 1 2 1))"]
    by (simp add: example_defs frame_defs)
  have 2: "info_curr_entry (snd (ext2fs_extent_get_info (ex_handle ex_root2 1 2))) = 0"
    using get_info_report [of "ex_handle ex_root2 1 2" "the (path (ex_handle ex_root2 1 2))"]
    by (simp add: example_defs frame_defs)
  from 1 2 show ?thesis by simp
qed

section \<open>Write-back errors of replace\<close>

text \<open>
  C6.  The claim is that \<open>ext2fs_extent_replace\<close> returns the error of a failing
  write-back.  The code calls \<open>update_path\<close> and drops its result.  At the root the
  inode rewrite fails with the collaborator's code 5, at level 1 the block write
  does; \<open>update_path\<close> returns the code, \<open>ext2fs_extent_replace\<close> returns 0, while
  \<open>ext2fs_extent_delete\<close> on the same handles returns the code.
\<close>

theorem replace_drops_write_error:
  "fst (update_path (ex_fs_wfail ex_root1) (ex_handle_at ex_root1 0 1 0))
     = Some (COLLABORATOR 5)
   \<and> fst (ext2fs_extent_replace (ex_fs_wfail ex_root1) (ex_handle_at ex_root1 0 1 0)
            \<lparr>e_pblk = 100, e_lblk = 0, e_len = 8, e_flags = 1\<rparr>) = None
   \<and> fst (ext2fs_extent_delete (ex_fs_wfail ex_root1) (ex_handle_at ex_root1 0 1 0))
     = Some (COLLABORATOR 5)
   \<and> fst (update_path (ex_fs_wfail ex_root2) ex_handle_leaf) = Some (COLLABORATOR 5)
   \<and> fst (ext2fs_extent_replace (ex_fs_wfail ex_root2) ex_handle_leaf
            \<lparr>e_pblk = 100, e_lblk = 0, e_len = 4, e_flags = 1\<rparr>) = None
   \<and> fst (ext2fs_extent_delete (ex_fs_wfail ex_root2) ex_handle_leaf)
     = Some (COLLABORATOR 5)"
  by (simp add: mutation_defs example_defs frame_defs codec_defs Let_def split_def)

section \<open>Allocations of a failing open\<close>

text \<open>
  C8.  The claim is that a failing \<open>ext2fs_extent_open\<close> has released everything
  it allocated.  The code does so where it jumps to \<open>errout\<close> (a failing inode
  read: no object stays live), and returns directly, leaving the handle and the
  inode copy allocated, when the inode lacks the extents flag and when the root
  header is bad.
\<close>

theorem open_error_leaks:
  "ext2fs_extent_open
     ((ex_fs ex_root1 [] [])\<lparr>inode_tab := (\<lambda>n. (ex_inode ex_root1)\<lparr>i_flags := 0\<rparr>)\<rparr>) 12 []
     = (Some EXT2_ET_INODE_NOT_EXTENT, None, [INODE_MEM, HANDLE_MEM])
   \<and> ext2fs_extent_open (ex_fs ex_root_bad [] []) 12 []
     = (Some EXT2_ET_EXTENT_HEADER_BAD, None, [INODE_MEM, HANDLE_MEM])
   \<and> ext2fs_extent_open
       ((ex_fs ex_root1 [] [])\<lparr>read_inode_err := (\<lambda>n. Some (COLLABORATOR 5))\<rparr>) 12 []
     = (Some (COLLABORATOR 5), None, [])"
  by (simp add: open_defs example_defs codec_defs Let_def)

text \<open>The handle of a successful open, for comparison with the examples.\<close>

lemma open_example:
  "ext2fs_extent_open (ex_fs ex_root2 ex_blk10 ex_blk11) 12 []
     = (None, Some (ex_handle ex_root2 1 2), [PATH_MEM, INODE_MEM, HANDLE_MEM])"
  by (simp add: open_defs example_defs codec_defs Let_def)

lemma get_down_example:
  "ext2fs_extent_get (ex_fs ex_root2 ex_blk10 ex_blk11) (ex_handle_at ex_root2 1 2 0)
     EXT2_EXTENT_DOWN
   = Some (Inr \<lparr>e_pblk = 100, e_lblk = 0, e_len = 4, e_flags = 1\<rparr>, ex_handle_leaf)"
  apply (subst ext2fs_extent_get_def)
  apply (subst extent_get_retry.simps)
  apply (simp add: get_defs codec_defs example_defs frame_defs Let_def nth_append)
  done

section \<open>The frame invariant\<close>

text \<open>
  C7.  The claim is that after every operation each touched frame has
  \<open>entries \<le> max_entries\<close> and a header whose entry count is the frame's
  \<open>entries\<close>.  Two operations break it.  \<open>EXT2_EXTENT_DOWN\<close> into a block whose
  header does not verify returns \<open>EXT2_ET_EXTENT_HEADER_BAD\<close> after it has
  incremented the level: the current frame then holds the block, whose header counts
  3 entries, and the frame's \<open>entries\<close> is still 0.  On the root of an empty file,
  \<open>EXT2_EXTENT_LAST_SIB\<close> succeeds with the cursor on the header, and a following
  delete succeeds and leaves \<open>entries = -1\<close> with a header count of 65535.
\<close>

theorem frame_invariant_broken:
  "(case ext2fs_extent_get ex_fs_corrupt (ex_handle_at ex_root2 1 2 0) EXT2_EXTENT_DOWN of
      None \<Rightarrow> False
    | Some (r, h) \<Rightarrow>
        r = Inl EXT2_ET_EXTENT_HEADER_BAD \<and> level h = 1 \<and> entries (cur h) = 0
        \<and> map_option (\<lambda>b. uint (eh_entries b)) (buf (cur h)) = Some 3)
   \<and> (case ext2fs_extent_get (ex_fs ex_root_empty [] []) (ex_handle ex_root_empty 0 0)
             EXT2_EXTENT_LAST_SIB of
        None \<Rightarrow> False
      | Some (r, h) \<Rightarrow>
          (case r of Inl e \<Rightarrow> False | Inr x \<Rightarrow> True)
          \<and> (case ext2fs_extent_delete (ex_fs ex_root_empty [] []) h of
                (r1, h1, fs1) \<Rightarrow>
                  r1 = None \<and> entries (cur h1) = - 1
                  \<and> map_option (\<lambda>b. uint (eh_entries b)) (buf (cur h1)) = Some 65535))"
  apply (subst ext2fs_extent_get_def)
  apply (subst extent_get_retry.simps)
  apply (subst ext2fs_extent_get_def)
  apply (subst extent_get_retry.simps)
  apply (simp add: get_defs mutation_defs codec_defs example_defs frame_defs Let_def
      nth_append split_def minus_one_word16 mask_eq_exp_minus_1)
  done

section \<open>Replace and read back\<close>









section \<open>Facts about the mutation of a frame\<close>

lemma length_put_extent [simp]: "length (put_extent b ix E) = length b"
  by (simp add: put_extent_def Let_def)

lemma length_put_index [simp]: "length (put_index b ix E) = length b"
  by (simp add: put_index_def Let_def)

lemma length_set_eh_entries [simp]: "length (set_eh_entries b v) = length b"
  by (simp add: set_eh_entries_def)

lemma eh_entries_set: "4 \<le> length b \<Longrightarrow> eh_entries (set_eh_entries b v) = v"
  by (simp add: eh_entries_def set_eh_entries_def get_put_le16_same)

lemma eh_entries_put_extent: "0 \<le> ix \<Longrightarrow> eh_entries (put_extent b ix E) = eh_entries b"
  by (simp add: eh_entries_def put_extent_def Let_def rec_off_nonneg get16_put32_other
      get_put_le16_other)

lemma eh_entries_put_index: "0 \<le> ix \<Longrightarrow> eh_entries (put_index b ix E) = eh_entries b"
  by (simp add: eh_entries_def put_index_def Let_def rec_off_nonneg get16_put32_other
      get_put_le16_other)

lemma frame_at_set_cur_parent:
  "path h = Some p \<Longrightarrow> 0 < level h \<Longrightarrow> frame_at (set_cur h q) (level h - 1) = frame_at h (level h - 1)"
  by (simp add: frame_defs)

lemma frame_at_set_cur_same:
  "path h = Some p \<Longrightarrow> nat (level h) < length p \<Longrightarrow> frame_at (set_cur h q) (level h) = q"
  by (simp add: frame_defs)


lemma path_set_cur: "path h = Some p \<Longrightarrow> path (set_cur h q) = Some (p[nat (level h) := q])"
  by (simp add: frame_defs)

section \<open>Insertion without a cursor\<close>

text \<open>
  C10.  The claim is that insert needs no positioned cursor: on a writable
  filesystem, with no current record and \<open>entries < max_entries\<close>, it succeeds and
  places the new record at the first record position.  On this path
  \<open>ext2fs_extent_insert\<close> sets the cursor to the first record and does not reset
  \<open>left\<close>: it shifts \<open>left + 1\<close> records and then increments \<open>left\<close>.  On the handle
  as \<open>ext2fs_extent_open\<close> returns it (no current record, \<open>left = entries\<close>) for a
  root leaf with 3 of its 4 records in use, the shift moves 48 bytes from byte 12 to
  byte 24 of the root region of 60 bytes, 12 bytes past its end.  For a root leaf
  with 1 of its 4 records in use the shift stays inside the region and insert returns
  success, with the new extent in record 0 and the old one in record 1, but with
  \<open>left = 2\<close> for 2 entries and the cursor on record 0: the next two \<open>NEXT_SIB\<close> both
  succeed, and the second one returns the record of index 2, which is not one of the
  2 entries.
\<close>

theorem insert_null_cursor_overrun:
  "ext2fs_extent_open (ex_fs ex_root3 [] []) 12 []
     = (None, Some (ex_handle ex_root3 0 3), [PATH_MEM, INODE_MEM, HANDLE_MEM])
   \<and> (length ex_root3 = 60
      \<and> curr (cur (ex_handle ex_root3 0 3)) = None
      \<and> entries (cur (ex_handle ex_root3 0 3)) = 3
      \<and> max_entries (cur (ex_handle ex_root3 0 3)) = 4
      \<and> left (cur (ex_handle ex_root3 0 3)) = 3
      \<and> memmove ex_root3 (rec_ptr 1) (rec_ptr 0) (to_size_t ((3 + 1) * 12)) = None
      \<and> fst (ext2fs_extent_insert (ex_fs ex_root3 [] []) (ex_handle ex_root3 0 3) False
                \<lparr>e_pblk = 500, e_lblk = 40, e_len = 8, e_flags = 1\<rparr>) = Some OUT_OF_BUFFER)
   \<and> ext2fs_extent_open (ex_fs ex_root1 [] []) 12 []
     = (None, Some (ex_handle ex_root1 0 1), [PATH_MEM, INODE_MEM, HANDLE_MEM])
   \<and> (case ext2fs_extent_insert (ex_fs ex_root1 [] []) (ex_handle ex_root1 0 1) False
            \<lparr>e_pblk = 500, e_lblk = 40, e_len = 8, e_flags = 1\<rparr> of
        (r, h1, fs1) \<Rightarrow>
          r = None \<and> curr (cur h1) = Some 0 \<and> entries (cur h1) = 2 \<and> left (cur h1) = 2
          \<and> ext2fs_extent_get fs1 h1 EXT2_EXTENT_CURRENT
              = Some (Inr \<lparr>e_pblk = 500, e_lblk = 40, e_len = 8, e_flags = 5\<rparr>, h1)
          \<and> (case ext2fs_extent_get fs1 h1 EXT2_EXTENT_NEXT_SIB of
                Some (Inr x1, h2) \<Rightarrow>
                  x1 = \<lparr>e_pblk = 100, e_lblk = 0, e_len = 8, e_flags = 1\<rparr>
                  \<and> (case ext2fs_extent_get fs1 h2 EXT2_EXTENT_NEXT_SIB of
                        Some (Inr x2, h3) \<Rightarrow>
                          curr (cur h3) = Some 2 \<and> entries (cur h3) = 2
                          \<and> x2 = \<lparr>e_pblk = 0, e_lblk = 0, e_len = 0, e_flags = 1\<rparr>
                      | _ \<Rightarrow> False)
              | _ \<Rightarrow> False))"
proof (intro conjI)
  show "ext2fs_extent_open (ex_fs ex_root3 [] []) 12 []
     = (None, Some (ex_handle ex_root3 0 3), [PATH_MEM, INODE_MEM, HANDLE_MEM])"
    by (simp add: open_defs example_defs codec_defs Let_def)
  show "ext2fs_extent_open (ex_fs ex_root1 [] []) 12 []
     = (None, Some (ex_handle ex_root1 0 1), [PATH_MEM, INODE_MEM, HANDLE_MEM])"
    by (simp add: open_defs example_defs codec_defs Let_def)
  show "length ex_root3 = 60"
    by (simp add: ex_root3_def)
  show "curr (cur (ex_handle ex_root3 0 3)) = None"
    "entries (cur (ex_handle ex_root3 0 3)) = 3"
    "max_entries (cur (ex_handle ex_root3 0 3)) = 4"
    "left (cur (ex_handle ex_root3 0 3)) = 3"
    by (simp_all add: example_defs frame_defs)
  show "memmove ex_root3 (rec_ptr 1) (rec_ptr 0) (to_size_t ((3 + 1) * 12)) = None"
    by (simp add: memmove_def in_node_def rec_ptr_def to_size_t_def ex_root3_def)
  show "fst (ext2fs_extent_insert (ex_fs ex_root3 [] []) (ex_handle ex_root3 0 3) False
                \<lparr>e_pblk = 500, e_lblk = 40, e_len = 8, e_flags = 1\<rparr>) = Some OUT_OF_BUFFER"
    by (simp add: mutation_defs example_defs frame_defs codec_defs Let_def split_def)
  show "case ext2fs_extent_insert (ex_fs ex_root1 [] []) (ex_handle ex_root1 0 1) False
            \<lparr>e_pblk = 500, e_lblk = 40, e_len = 8, e_flags = 1\<rparr> of
        (r, h1, fs1) \<Rightarrow>
          r = None \<and> curr (cur h1) = Some 0 \<and> entries (cur h1) = 2 \<and> left (cur h1) = 2
          \<and> ext2fs_extent_get fs1 h1 EXT2_EXTENT_CURRENT
              = Some (Inr \<lparr>e_pblk = 500, e_lblk = 40, e_len = 8, e_flags = 5\<rparr>, h1)
          \<and> (case ext2fs_extent_get fs1 h1 EXT2_EXTENT_NEXT_SIB of
                Some (Inr x1, h2) \<Rightarrow>
                  x1 = \<lparr>e_pblk = 100, e_lblk = 0, e_len = 8, e_flags = 1\<rparr>
                  \<and> (case ext2fs_extent_get fs1 h2 EXT2_EXTENT_NEXT_SIB of
                        Some (Inr x2, h3) \<Rightarrow>
                          curr (cur h3) = Some 2 \<and> entries (cur h3) = 2
                          \<and> x2 = \<lparr>e_pblk = 0, e_lblk = 0, e_len = 0, e_flags = 1\<rparr>
                      | _ \<Rightarrow> False)
              | _ \<Rightarrow> False)"
    apply (simp add: mutation_defs example_defs frame_defs codec_defs Let_def split_def)
    apply (simp add: get_single get_body_def decide_def move_def next_sib_def decode_def
        frame_defs codec_defs Let_def nth_append
        EXT2_EXTENT_FLAGS_LEAF_def EXT2_EXTENT_FLAGS_UNINIT_def
        EXT2_EXTENT_FLAGS_SECOND_VISIT_def)
    done
qed
section \<open>The backward traversal at an index node\<close>

lemma frames_level [simp]: "frames (h\<lparr>level := l\<rparr>) = frames h"
  by (simp add: frames_def)

lemma frame_at_level [simp]: "frame_at (h\<lparr>level := l\<rparr>) k = frame_at h k"
  by (simp add: frame_at_def)

lemma path_set_frame_ex [simp]:
  "\<exists>y. path (set_frame h l q) = Some y" "\<exists>y. path (set_cur h q) = Some y"
  by (simp_all add: frame_defs)

lemma move_keeps:
  assumes "move fs orig_op op h = Inl (e, h1) \<or> move fs orig_op op h = Inr (ix, h1)"
    and "path h \<noteq> None"
  shows "magic h1 = magic h \<and> path h1 \<noteq> None \<and> max_depth h1 = max_depth h"
  using assms
  by (cases op)
     (auto simp: move_def root_def first_sib_def next_sib_def prev_sib_def last_sib_def
        up_def down_def Let_def set_cur_def
        split: if_splits option.splits sum.splits)

lemma decide_keeps:
  assumes "decide orig_op op h = Inr (op1, h1)" and "path h \<noteq> None"
  shows "magic h1 = magic h \<and> path h1 \<noteq> None \<and> max_depth h1 = max_depth h"
  using assms
  by (auto simp: decide_def decide_next_def decide_prev_def Let_def split: if_splits)

lemma get_body_keeps:
  assumes "get_body fs orig_op op h = (r, op1, h1)" and "path h \<noteq> None"
  shows "magic h1 = magic h \<and> path h1 \<noteq> None \<and> max_depth h1 = max_depth h"
proof (cases "decide orig_op op h")
  case (Inl e)
  with assms show ?thesis by (simp add: get_body_def)
next
  case (Inr a)
  obtain op2 h2 where a: "a = (op2, h2)" by (cases a)
  from decide_keeps [OF Inr [unfolded a] assms(2)]
  have k2: "magic h2 = magic h" "path h2 \<noteq> None" "max_depth h2 = max_depth h" by simp_all
  show ?thesis
  proof (cases "move fs orig_op op2 h2")
    case (Inl b)
    obtain e h3 where b: "b = (e, h3)" by (cases b)
    from move_keeps [of fs orig_op op2 h2 e h3] Inl b k2
    have "magic h3 = magic h \<and> path h3 \<noteq> None \<and> max_depth h3 = max_depth h" by simp
    moreover from assms(1) Inr a Inl b have "h1 = h3" by (simp add: get_body_def)
    ultimately show ?thesis by simp
  next
    case (Inr b)
    note mv = Inr
    obtain ix h3 where b: "b = (ix, h3)" by (cases b)
    from move_keeps [of fs orig_op op2 h2 _ h3 ix] mv b k2
    have "magic h3 = magic h \<and> path h3 \<noteq> None \<and> max_depth h3 = max_depth h" by simp
    moreover from assms(1) \<open>decide orig_op op h = Inr a\<close> a mv b have "h1 = h3"
      by (auto simp: get_body_def split: option.splits sum.splits)
    ultimately show ?thesis by simp
  qed
qed

lemma get_pass_prev_leaf_op:
  "get_pass fs EXT2_EXTENT_PREV_LEAF op h = get_pass fs EXT2_EXTENT_PREV_LEAF op' h"
  by (auto simp: get_pass_def get_body_def decide_def split: sum.splits prod.splits option.splits)

lemma retry_prev_leaf_op:
  "extent_get_retry fs EXT2_EXTENT_PREV_LEAF op h
     = extent_get_retry fs EXT2_EXTENT_PREV_LEAF op' h"
  by (simp only: extent_get_retry.simps [of fs EXT2_EXTENT_PREV_LEAF op h]
      extent_get_retry.simps [of fs EXT2_EXTENT_PREV_LEAF op' h]
      get_pass_prev_leaf_op [of fs op h op'])

lemma get_body_prev_leaf:
  "get_body fs EXT2_EXTENT_PREV_LEAF EXT2_EXTENT_PREV_LEAF h = (r, op1, h1)
   \<Longrightarrow> \<exists>op2. get_body fs EXT2_EXTENT_PREV EXT2_EXTENT_PREV h = (r, op2, h1)"
  by (auto simp: get_body_def decide_def move_def up_def
      split: sum.splits prod.splits option.splits ext_op.splits)

lemma get_prev_leaf_unfold:
  assumes m: "magic h = Some EXT2_ET_MAGIC_EXTENT_HANDLE" and p: "path h \<noteq> None"
  shows "ext2fs_extent_get fs h EXT2_EXTENT_PREV_LEAF =
     (case ext2fs_extent_get fs h EXT2_EXTENT_PREV of
        Some (Inr x, h1) \<Rightarrow>
          if level h1 \<noteq> max_depth h1 then ext2fs_extent_get fs h1 EXT2_EXTENT_PREV_LEAF
          else Some (Inr x, h1)
      | r \<Rightarrow> r)"
proof -
  obtain r op1 h1 where b: "get_body fs EXT2_EXTENT_PREV_LEAF EXT2_EXTENT_PREV_LEAF h = (r, op1, h1)"
    by (cases "get_body fs EXT2_EXTENT_PREV_LEAF EXT2_EXTENT_PREV_LEAF h") auto
  from get_body_prev_leaf [OF b] obtain op2
    where b': "get_body fs EXT2_EXTENT_PREV EXT2_EXTENT_PREV h = (r, op2, h1)" by blast
  from get_body_keeps [OF b p] m
  have k: "magic h1 = Some EXT2_ET_MAGIC_EXTENT_HANDLE" "path h1 \<noteq> None" by simp_all
  have prev: "ext2fs_extent_get fs h EXT2_EXTENT_PREV = Some (r, h1)"
    using m p b' by (simp add: get_single)
  have again: "ext2fs_extent_get fs h1 EXT2_EXTENT_PREV_LEAF
      = extent_get_retry fs EXT2_EXTENT_PREV_LEAF op1 h1"
  proof -
    from k(2) obtain y where "path h1 = Some y" by blast
    with k(1) show ?thesis
      by (simp add: ext2fs_extent_get_def
          retry_prev_leaf_op [of fs EXT2_EXTENT_PREV_LEAF h1 op1])
  qed
  have "ext2fs_extent_get fs h EXT2_EXTENT_PREV_LEAF
      = (case r of Inl e \<Rightarrow> Some (Inl e, h1)
         | Inr x \<Rightarrow> if level h1 \<noteq> max_depth h1
                    then extent_get_retry fs EXT2_EXTENT_PREV_LEAF op1 h1
                    else Some (Inr x, h1))"
  proof -
    from p obtain y where "path h = Some y" by blast
    with m b show ?thesis
      by (subst ext2fs_extent_get_def, subst extent_get_retry.simps)
         (simp add: get_pass_def split: sum.splits)
  qed
  then show ?thesis
    by (simp add: prev again split: sum.splits)
qed

text \<open>
  C3 (amended).  For \<open>get(PREV)\<close> and \<open>get(PREV_LEAF)\<close> with the cursor at an index
  node (\<open>level < max_depth\<close>): if the frame's \<open>visit_num\<close> is positive the engine
  performs \<open>DOWN_AND_LAST\<close> and leaves this frame's \<open>visit_num\<close> as it is;
  otherwise, if a sibling remains to the left (\<open>left < entries - 1\<close>), it performs
  \<open>PREV_SIB\<close>; otherwise, if not at the root, it performs \<open>UP\<close>, which sets the
  parent frame's \<open>visit_num\<close> to 0 and returns the parent's current record;
  otherwise it fails with \<open>EXT2_ET_EXTENT_NO_PREV\<close> and leaves the handle as it
  was.  \<open>PREV\<close> returns after this one move; \<open>PREV_LEAF\<close> makes the same move and
  starts over from the new position as long as the move succeeded and the cursor is
  not at the maximal depth.
\<close>

theorem prev_at_index_node:
  assumes m: "magic h = Some EXT2_ET_MAGIC_EXTENT_HANDLE" and p: "path h = Some fr"
    and i: "level h < max_depth h"
  shows "(visit_num (cur h) > 0 \<longrightarrow>
            ext2fs_extent_get fs h EXT2_EXTENT_PREV
              = ext2fs_extent_get fs h EXT2_EXTENT_DOWN_AND_LAST)
     \<and> (visit_num (cur h) \<le> 0 \<and> left (cur h) < entries (cur h) - 1 \<longrightarrow>
            ext2fs_extent_get fs h EXT2_EXTENT_PREV
              = ext2fs_extent_get fs h EXT2_EXTENT_PREV_SIB)
     \<and> (visit_num (cur h) \<le> 0 \<and> entries (cur h) - 1 \<le> left (cur h) \<and> level h > 0 \<longrightarrow>
            ext2fs_extent_get fs h EXT2_EXTENT_PREV
              = ext2fs_extent_get fs
                  (set_frame (h\<lparr>level := level h - 1\<rparr>) (level h - 1)
                     ((frame_at h (level h - 1))\<lparr>visit_num := 0\<rparr>))
                  EXT2_EXTENT_CURRENT)
     \<and> (visit_num (cur h) \<le> 0 \<and> entries (cur h) - 1 \<le> left (cur h) \<and> level h \<le> 0 \<longrightarrow>
            ext2fs_extent_get fs h EXT2_EXTENT_PREV = Some (Inl EXT2_ET_EXTENT_NO_PREV, h))
     \<and> ext2fs_extent_get fs h EXT2_EXTENT_PREV_LEAF =
         (case ext2fs_extent_get fs h EXT2_EXTENT_PREV of
            Some (Inr x, h1) \<Rightarrow>
              if level h1 \<noteq> max_depth h1
              then ext2fs_extent_get fs h1 EXT2_EXTENT_PREV_LEAF
              else Some (Inr x, h1)
          | r \<Rightarrow> r)"
proof -
  have pn: "path h \<noteq> None" using p by simp
  have a: "ext2fs_extent_get fs h EXT2_EXTENT_PREV
              = ext2fs_extent_get fs h EXT2_EXTENT_DOWN_AND_LAST"
    if "visit_num (cur h) > 0"
    using m pn i that
    by (simp add: get_single get_body_def decide_def decide_prev_def move_def)
  have b: "ext2fs_extent_get fs h EXT2_EXTENT_PREV
              = ext2fs_extent_get fs h EXT2_EXTENT_PREV_SIB"
    if "visit_num (cur h) \<le> 0" "left (cur h) < entries (cur h) - 1"
    using m pn i that
    by (simp add: get_single get_body_def decide_def decide_prev_def move_def)
  have c: "ext2fs_extent_get fs h EXT2_EXTENT_PREV
              = ext2fs_extent_get fs
                  (set_frame (h\<lparr>level := level h - 1\<rparr>) (level h - 1)
                     ((frame_at h (level h - 1))\<lparr>visit_num := 0\<rparr>))
                  EXT2_EXTENT_CURRENT"
    if "visit_num (cur h) \<le> 0" "entries (cur h) - 1 \<le> left (cur h)" "level h > 0"
  proof -
    let ?h1 = "set_frame (h\<lparr>level := level h - 1\<rparr>) (level h - 1)
                     ((frame_at h (level h - 1))\<lparr>visit_num := 0\<rparr>)"
    have cc: "curr (cur ?h1) = curr (frame_at h (level h - 1))"
      using p by (cases "nat (level h - 1) < length fr")
        (simp_all add: frame_defs list_update_beyond)
    have m1: "magic ?h1 = Some EXT2_ET_MAGIC_EXTENT_HANDLE" "path ?h1 \<noteq> None"
      using m by simp_all
    show ?thesis
      using m pn i that cc
      by (simp add: get_single [OF m pn] get_single [OF m1] get_body_def decide_def
          decide_prev_def move_def up_def cur_def set_cur_def Let_def
          split: option.splits sum.splits)
  qed
  have d: "ext2fs_extent_get fs h EXT2_EXTENT_PREV = Some (Inl EXT2_ET_EXTENT_NO_PREV, h)"
    if "visit_num (cur h) \<le> 0" "entries (cur h) - 1 \<le> left (cur h)" "level h \<le> 0"
    using m pn i that
    by (simp add: get_single get_body_def decide_def decide_prev_def)
  from a b c d get_prev_leaf_unfold [OF m pn, of fs] show ?thesis by blast
qed

text \<open>
  C3 as stated fails.  At the root of the tree of depth 1 with the cursor on the
  second index record and \<open>visit_num = 0\<close>, \<open>get(PREV)\<close> steps to the first record
  (\<open>PREV_SIB\<close>) and stays at level 0; it does not descend.  With \<open>visit_num = 1\<close>
  at the same position it descends to the last extent of block 11
  (\<open>DOWN_AND_LAST\<close>), although a sibling remains to the left.
\<close>

theorem prev_at_index_node_counterexample:
  "visit_num (cur (ex_handle_at ex_root2 1 2 1)) = 0
   \<and> level (ex_handle_at ex_root2 1 2 1) < max_depth (ex_handle_at ex_root2 1 2 1)
   \<and> (case ext2fs_extent_get (ex_fs ex_root2 ex_blk10 ex_blk11) (ex_handle_at ex_root2 1 2 1)
             EXT2_EXTENT_PREV of
        Some (Inr x, h1) \<Rightarrow>
          level h1 = 0 \<and> curr (cur h1) = Some 0
          \<and> x = \<lparr>e_pblk = 10, e_lblk = 0, e_len = 16, e_flags = 4\<rparr>
      | r \<Rightarrow> False)
   \<and> (case ext2fs_extent_get (ex_fs ex_root2 ex_blk10 ex_blk11)
             (set_cur (ex_handle_at ex_root2 1 2 1)
                ((cur (ex_handle_at ex_root2 1 2 1))\<lparr>visit_num := 1\<rparr>))
             EXT2_EXTENT_PREV of
        Some (Inr x, h1) \<Rightarrow>
          level h1 = 1 \<and> curr (cur h1) = Some 1
          \<and> x = \<lparr>e_pblk = 400, e_lblk = 24, e_len = 8, e_flags = 1\<rparr>
      | r \<Rightarrow> False)"
  by (simp add: get_single get_body_def decide_def decide_prev_def move_def prev_sib_def
      down_def decode_def io_channel_read_blk_def ext2fs_extent_header_verify_def
      EXT2_EXTENT_FLAGS_LEAF_def EXT2_EXTENT_FLAGS_UNINIT_def
      EXT2_EXTENT_FLAGS_SECOND_VISIT_def codec_defs example_defs frame_defs Let_def nth_append)

theorem prev_at_index_node_witness:
  "ext2fs_extent_get (ex_fs ex_root2 ex_blk10 ex_blk11) (ex_handle_at ex_root2 1 2 1)
       EXT2_EXTENT_PREV
     = ext2fs_extent_get (ex_fs ex_root2 ex_blk10 ex_blk11) (ex_handle_at ex_root2 1 2 1)
         EXT2_EXTENT_PREV_SIB
   \<and> ext2fs_extent_get (ex_fs ex_root2 ex_blk10 ex_blk11) (ex_handle_at ex_root2 1 2 0)
       EXT2_EXTENT_PREV
     = Some (Inl EXT2_ET_EXTENT_NO_PREV, ex_handle_at ex_root2 1 2 0)"
proof -
  have 1: "ext2fs_extent_get (ex_fs ex_root2 ex_blk10 ex_blk11) (ex_handle_at ex_root2 1 2 1)
       EXT2_EXTENT_PREV
     = ext2fs_extent_get (ex_fs ex_root2 ex_blk10 ex_blk11) (ex_handle_at ex_root2 1 2 1)
         EXT2_EXTENT_PREV_SIB"
    using prev_at_index_node [of "ex_handle_at ex_root2 1 2 1"
        "the (path (ex_handle_at ex_root2 1 2 1))" "ex_fs ex_root2 ex_blk10 ex_blk11"]
    by (simp add: example_defs frame_defs)
  have 2: "ext2fs_extent_get (ex_fs ex_root2 ex_blk10 ex_blk11) (ex_handle_at ex_root2 1 2 0)
       EXT2_EXTENT_PREV
     = Some (Inl EXT2_ET_EXTENT_NO_PREV, ex_handle_at ex_root2 1 2 0)"
    using prev_at_index_node [of "ex_handle_at ex_root2 1 2 0"
        "the (path (ex_handle_at ex_root2 1 2 0))" "ex_fs ex_root2 ex_blk10 ex_blk11"]
    by (simp add: example_defs frame_defs)
  from 1 2 show ?thesis by (rule conjI)
qed

section \<open>Single moves on a positioned handle\<close>

lemma frames_okD:
  assumes "frames_ok fs h"
  shows "\<exists>fr. magic h = Some EXT2_ET_MAGIC_EXTENT_HANDLE \<and> 0 \<le> max_depth h
    \<and> path h = Some fr \<and> length fr = nat (max_depth h) + 1
    \<and> (\<forall>l. 1 \<le> l \<longrightarrow> l < length fr \<longrightarrow> buf (fr ! l) = None
          \<longrightarrow> get_mem_err fs (BUF_MEM l) = None)"
  using assms by (auto simp: frames_ok_def split: option.splits)




lemma get_single_ok:
  assumes "frames_ok fs h" and "op \<noteq> EXT2_EXTENT_NEXT_LEAF" and "op \<noteq> EXT2_EXTENT_PREV_LEAF"
    and "op \<noteq> EXT2_EXTENT_LAST_LEAF"
  shows "ext2fs_extent_get fs h op =
           Some (case get_body fs op op h of (r, op1, h1) \<Rightarrow> (r, h1))"
proof -
  from frames_okD [OF assms(1)] obtain fr
    where "magic h = Some EXT2_ET_MAGIC_EXTENT_HANDLE" "path h = Some fr" by blast
  then show ?thesis using assms(2-) by (intro get_single) simp_all
qed








lemma get_prev_sib_first:
  assumes ok: "frames_ok fs h" and pos: "positioned h b 0"
  shows "ext2fs_extent_get fs h EXT2_EXTENT_PREV_SIB = Some (Inl EXT2_ET_EXTENT_NO_PREV, h)"
  using pos
  by (simp add: get_single_ok [OF ok] get_body_def decide_def move_def prev_sib_def
      positioned_def)

lemma frames_ok_level [simp]: "frames_ok fs (h\<lparr>level := l\<rparr>) = frames_ok fs h"
  by (simp add: frames_ok_def split: option.splits)







section \<open>The loop of the seek\<close>














section \<open>Seeking in a well-formed tree\<close>


lemma rec_off_0 [simp]: "rec_off 0 = 12"
  by (simp add: rec_off_def)









subsection \<open>The example tree of depth 1\<close>












end
